theory Spec2Isabelle
  imports Complex_Main
begin

section \<open>Strings and basic data of the voice processing system\<close>

text \<open>
  A Python \<open>str\<close> is a sequence of Unicode code points. Texts (utterances, keywords,
  response templates) are lists of code points; identifiers that the program only
  compares for equality (language codes, intent labels, dictionary keys, session and
  user ids) are HOL strings.
\<close>

type_synonym pystr = "nat list"

definition str :: "string \<Rightarrow> pystr" where
  "str s = map of_char s"

text \<open>An entity is the dictionary \<open>{'value': ..., 'confidence': ...}\<close>.\<close>

record entity =
  e_value :: pystr
  e_confidence :: rat

type_synonym entities = "string \<rightharpoonup> entity list"

text \<open>One entry of \<open>conversation_history\<close>, as \<open>update_context\<close> builds it.\<close>

record turn =
  t_timestamp :: nat
  t_user_input :: pystr
  t_intent :: string
  t_entities :: entities
  t_response :: pystr

text \<open>The dataclass \<open>ConversationContext\<close>.\<close>

record conversation_context =
  user_id :: string
  session_id :: string
  language :: string
  current_intent :: string
  entities :: entities
  conversation_history :: "turn list"
  user_profile :: "string \<rightharpoonup> pystr"
  farm_context :: "string \<rightharpoonup> pystr"

section \<open>ConversationManager\<close>

record conversation_manager =
  active_sessions :: "string \<rightharpoonup> conversation_context"
  session_timeout :: nat

text \<open>\<open>ConversationManager.__init__\<close>\<close>

definition ConversationManager_init :: conversation_manager where
  "ConversationManager_init = \<lparr>active_sessions = Map.empty, session_timeout = 3600\<rparr>"

text \<open>The context that \<open>get_or_create_context\<close> constructs for an unknown session.\<close>

definition new_context :: "string \<Rightarrow> string \<Rightarrow> string \<Rightarrow> conversation_context" where
  "new_context uid sid lang =
     \<lparr>user_id = uid, session_id = sid, language = lang, current_intent = [],
      entities = Map.empty, conversation_history = [],
      user_profile = Map.empty, farm_context = Map.empty\<rparr>"

text \<open>
  \<open>get_or_create_context\<close> returns the context object and mutates the manager. The
  returned object is the one held in \<open>active_sessions\<close>, so the assignment to its
  \<open>language\<close> attribute is written back into the store.
\<close>

definition get_or_create_context ::
  "conversation_manager \<Rightarrow> string \<Rightarrow> string \<Rightarrow> string
     \<Rightarrow> conversation_context \<times> conversation_manager" where
  "get_or_create_context m uid sid lang =
     (case active_sessions m sid of
        Some context \<Rightarrow>
          (let context' = context\<lparr>language := lang\<rparr>
           in (context', m\<lparr>active_sessions := (active_sessions m)(sid \<mapsto> context')\<rparr>))
      | None \<Rightarrow>
          (let context = new_context uid sid lang
           in (context, m\<lparr>active_sessions := (active_sessions m)(sid \<mapsto> context)\<rparr>)))"

text \<open>Python's \<open>xs[-n:]\<close> for \<open>n > 0\<close>: the last \<open>n\<close> elements, or all of them.\<close>

definition last_n :: "nat \<Rightarrow> 'a list \<Rightarrow> 'a list" where
  "last_n n xs = drop (length xs - n) xs"

text \<open>
  \<open>update_context\<close>. The clock reading of \<open>datetime.now()\<close> is the argument \<open>now\<close>
  (in seconds); \<open>dict.update\<close> is \<open>++\<close>, which takes the right-hand value on a key
  both maps have.
\<close>

definition update_context ::
  "conversation_manager \<Rightarrow> nat \<Rightarrow> string \<Rightarrow> string \<Rightarrow> entities \<Rightarrow> pystr \<Rightarrow> pystr
     \<Rightarrow> conversation_manager" where
  "update_context m now sid intent ents user_input response =
     (case active_sessions m sid of
        None \<Rightarrow> m
      | Some context \<Rightarrow>
          (let c1 = context\<lparr>current_intent := intent\<rparr>;
               c2 = c1\<lparr>entities := entities c1 ++ ents\<rparr>;
               c3 = c2\<lparr>conversation_history := conversation_history c2 @
                        [\<lparr>t_timestamp = now, t_user_input = user_input, t_intent = intent,
                          t_entities = ents, t_response = response\<rparr>]\<rparr>;
               c4 = c3\<lparr>conversation_history := last_n 10 (conversation_history c3)\<rparr>
           in m\<lparr>active_sessions := (active_sessions m)(sid \<mapsto> c4)\<rparr>))"

text \<open>
  Calls on the manager, each paired with the wall-clock time (in seconds) at which it is
  made. Only \<open>update_context\<close> reads the clock.
\<close>

datatype call =
    GetOrCreate string string string
  | Update string string entities pystr pystr

fun exec :: "conversation_manager \<Rightarrow> nat \<times> call
               \<Rightarrow> conversation_manager \<times> conversation_context option" where
  "exec m (now, GetOrCreate uid sid lang) =
     (let (c, m') = get_or_create_context m uid sid lang in (m', Some c))"
| "exec m (now, Update sid intent ents user_input response) =
     (update_context m now sid intent ents user_input response, None)"

definition run :: "conversation_manager \<Rightarrow> (nat \<times> call) list \<Rightarrow> conversation_manager" where
  "run m calls = foldl (\<lambda>m' tc. fst (exec m' tc)) m calls"

text \<open>The history entries that the \<open>update_context\<close> calls for session \<open>s\<close> build, in call order.\<close>

fun turns_of :: "string \<Rightarrow> (nat \<times> call) list \<Rightarrow> turn list" where
  "turns_of s [] = []"
| "turns_of s ((now, Update sid intent ents user_input response) # cs) =
     (if sid = s
      then \<lparr>t_timestamp = now, t_user_input = user_input, t_intent = intent,
            t_entities = ents, t_response = response\<rparr> # turns_of s cs
      else turns_of s cs)"
| "turns_of s ((now, GetOrCreate uid sid lang) # cs) = turns_of s cs"

text \<open>Whether a call names session \<open>s\<close>.\<close>

fun touches :: "string \<Rightarrow> nat \<times> call \<Rightarrow> bool" where
  "touches s (now, Update sid intent ents user_input response) = (sid = s)"
| "touches s (now, GetOrCreate uid sid lang) = (sid = s)"

section \<open>Exceptions and external engines\<close>

text \<open>
  Exceptions are values. \<open>EngineError\<close> stands for whatever an external library
  (speech engines, model pipelines, language identification) raises.
\<close>

datatype exn = KeyError | IndexError | EngineError

section \<open>LanguageDetector\<close>

text \<open>Python's \<open>kw in text\<close> on strings: \<open>kw\<close> occurs as a contiguous run.\<close>

fun starts_with :: "'a list \<Rightarrow> 'a list \<Rightarrow> bool" where
  "starts_with cs [] = True"
| "starts_with [] (k # ks) = False"
| "starts_with (c # cs) (k # ks) = (c = k \<and> starts_with cs ks)"

fun contains :: "'a list \<Rightarrow> 'a list \<Rightarrow> bool" where
  "contains [] kw = (kw = [])"
| "contains (c # cs) kw = (starts_with (c # cs) kw \<or> contains cs kw)"

text \<open>
  \<open>self.language_keywords\<close>, in the insertion order of the dictionary (the order in
  which \<open>items()\<close> yields it). The Hindi and Kannada keywords are given by their code
  points.
\<close>

definition language_keywords :: "(string \<times> pystr list) list" where
  "language_keywords =
     [(''hi'',
       [[2347, 2360, 2354], [2326, 2375, 2340], [2348, 2368, 2332], [2346, 2366, 2344,
        2368], [2313, 2352, 2381, 2357, 2352, 2325], [2325, 2368, 2335], [2352, 2379, 2327],
        [2350, 2367, 2335, 2381, 2335, 2368]]),
      (''en'',
       [str ''crop'', str ''farm'', str ''seed'', str ''water'', str ''fertilizer'',
        str ''pest'', str ''disease'', str ''soil'']),
      (''kn'',
       [[3244, 3270, 3251, 3270], [3257, 3274, 3250], [3244, 3264, 3228], [3240, 3264, 3248,
        3265], [3223, 3274, 3244, 3277, 3244, 3248], [3221, 3264, 3231], [3248, 3275, 3223],
        [3246, 3235, 3277, 3235, 3265]])]"

text \<open>\<open>lang_mapping\<close> of \<open>_detect_from_text\<close>.\<close>

definition lang_mapping :: "(string \<times> string) list" where
  "lang_mapping = [(''hi'', ''hi''), (''en'', ''en''), (''kn'', ''kn'')]"

text \<open>
  \<open>_detect_from_text\<close>. The argument \<open>detect\<close> is \<open>langdetect.detect\<close>, which returns
  a language code or raises; the handler of the method turns an exception into \<open>en\<close>.
  The keyword loop returns at the first language, in table order, one of whose keywords
  occurs in the text.
\<close>

fun first_hit :: "(string \<times> pystr list) list \<Rightarrow> pystr \<Rightarrow> string option" where
  "first_hit [] text = None"
| "first_hit ((lang, keywords) # rest) text =
     (if list_ex (contains text) keywords then Some lang else first_hit rest text)"

definition detect_from_text :: "(pystr \<Rightarrow> exn + string) \<Rightarrow> pystr \<Rightarrow> string" where
  "detect_from_text detect text =
     (case first_hit language_keywords text of
        Some lang \<Rightarrow> lang
      | None \<Rightarrow>
          (case detect text of
             Inl e \<Rightarrow> ''en''
           | Inr result \<Rightarrow>
               (case map_of lang_mapping result of Some l \<Rightarrow> l | None \<Rightarrow> ''en'')))"

text \<open>\<open>_detect_from_audio\<close> is a placeholder that returns \<open>None\<close>.\<close>

definition detect_from_audio :: "'f \<Rightarrow> string option" where
  "detect_from_audio audio_features = None"

text \<open>\<open>detect_language\<close>; the optional \<open>audio_features\<close> array is opaque.\<close>

definition detect_language ::
  "(pystr \<Rightarrow> exn + string) \<Rightarrow> pystr \<Rightarrow> 'f option \<Rightarrow> string" where
  "detect_language detect text audio_features =
     (let text_lang = detect_from_text detect text
      in case audio_features of
           Some af \<Rightarrow>
             (let audio_lang = detect_from_audio af
              in if audio_lang = Some text_lang then text_lang else text_lang)
         | None \<Rightarrow> text_lang)"

section \<open>MultilingualASR\<close>

text \<open>
  The recogniser object with its external engines. Audio buffers are byte lists; the
  array that \<open>librosa\<close> produces is opaque. Confidences are Python floats in the
  source and rationals here; the thresholds compared below (\<open>0.7\<close>, \<open>0.9\<close>, \<open>0.5\<close>) are
  the source's decimal literals.
  \<^item> \<open>azure_speech_key\<close>: \<open>os.getenv('AZURE_SPEECH_KEY')\<close>;
  \<^item> \<open>preprocess_audio\<close>: \<open>_preprocess_audio\<close> (\<open>librosa.load\<close> and normalisation);
  \<^item> \<open>whisper_generate\<close>: the Whisper processor and model of \<open>_whisper_transcribe\<close>,
    called with the language hint; it yields the decoded transcription and, for each
    generation step, the mean of the top softmax probability, or raises;
  \<^item> \<open>language_detector_init\<close>: the exception, if any, that constructing
    \<open>LanguageDetector()\<close> raises;
  \<^item> \<open>detect\<close>: \<open>langdetect.detect\<close>;
  \<^item> \<open>azure_recognize\<close>: the Azure recogniser called with a locale; it raises, or
    recognises speech (\<open>Some text\<close>), or ends with another result reason (\<open>None\<close>).
\<close>

type_synonym bytes = "nat list"

record 'a multilingual_asr =
  azure_speech_key :: "string option"
  preprocess_audio :: "bytes \<Rightarrow> exn + 'a"
  whisper_generate :: "'a \<Rightarrow> string \<Rightarrow> exn + (pystr \<times> rat list)"
  language_detector_init :: "exn option"
  detect :: "pystr \<Rightarrow> exn + string"
  azure_recognize :: "bytes \<Rightarrow> string \<Rightarrow> exn + pystr option"

text \<open>\<open>self.language_configs\<close>: language code to \<open>(model_name, locale)\<close>.\<close>

definition language_configs :: "(string \<times> string \<times> string) list" where
  "language_configs =
     [(''hi'', ''hindi'', ''hi-IN''),
      (''en'', ''english'', ''en-IN''),
      (''kn'', ''kannada'', ''kn-IN'')]"

text \<open>\<open>_calculate_whisper_confidence\<close>: the mean of the per-step values, 0.5 if none.\<close>

definition calculate_whisper_confidence :: "rat list \<Rightarrow> rat" where
  "calculate_whisper_confidence scores =
     (if scores = [] then 1 / 2 else sum_list scores / of_nat (length scores))"

text \<open>\<open>_whisper_transcribe\<close>; an exception of an engine propagates to the caller.\<close>

definition whisper_transcribe ::
  "'a multilingual_asr \<Rightarrow> 'a \<Rightarrow> string \<Rightarrow> exn + (pystr \<times> string \<times> rat)" where
  "whisper_transcribe asr audio_array language_hint =
     (case whisper_generate asr audio_array language_hint of
        Inl e \<Rightarrow> Inl e
      | Inr (transcription, scores) \<Rightarrow>
          (let confidence = calculate_whisper_confidence scores
           in case language_detector_init asr of
                Some e \<Rightarrow> Inl e
              | None \<Rightarrow>
                  Inr (transcription,
                       detect_language (detect asr) transcription (None :: unit option),
                       confidence)))"

text \<open>
  \<open>_azure_transcribe\<close>: the locale of the language, \<open>en-IN\<close> for an unknown one; the
  confidence is the heuristic \<open>min(0.9, len(text) / 100.0 + 0.5)\<close>; every failure gives
  the empty text with confidence 0.
\<close>

definition azure_transcribe :: "'a multilingual_asr \<Rightarrow> bytes \<Rightarrow> string \<Rightarrow> pystr \<times> rat" where
  "azure_transcribe asr audio_data lang =
     (let locale = (case map_of language_configs lang of
                      Some (model_name, loc) \<Rightarrow> loc
                    | None \<Rightarrow> ''en-IN'')
      in case azure_recognize asr audio_data locale of
           Inl e \<Rightarrow> ([], 0)
         | Inr None \<Rightarrow> ([], 0)
         | Inr (Some text) \<Rightarrow> (text, min (9 / 10) (of_nat (length text) / 100 + 1 / 2)))"

text \<open>Truthiness of an environment variable: set and not empty.\<close>

definition truthy :: "string option \<Rightarrow> bool" where
  "truthy v = (case v of None \<Rightarrow> False | Some s \<Rightarrow> s \<noteq> [])"

text \<open>
  \<open>transcribe\<close>: Whisper first; Azure when the confidence is below 0.7 and a key is
  configured, and its result replaces text and confidence when its confidence is
  higher. Any exception gives \<open>("", "en", 0.0)\<close>.
\<close>

definition transcribe ::
  "'a multilingual_asr \<Rightarrow> bytes \<Rightarrow> string \<Rightarrow> pystr \<times> string \<times> rat" where
  "transcribe asr audio_data language_hint =
     (case preprocess_audio asr audio_data of
        Inl e \<Rightarrow> ([], ''en'', 0)
      | Inr audio_array \<Rightarrow>
          (case whisper_transcribe asr audio_array language_hint of
             Inl e \<Rightarrow> ([], ''en'', 0)
           | Inr (text, detected_lang, confidence) \<Rightarrow>
               (if confidence < 7 / 10 \<and> truthy (azure_speech_key asr)
                then (let (azure_text, azure_conf) = azure_transcribe asr audio_data detected_lang
                      in if azure_conf > confidence
                         then (azure_text, detected_lang, azure_conf)
                         else (text, detected_lang, confidence))
                else (text, detected_lang, confidence))))"

section \<open>MultilingualNLU\<close>

subsection \<open>Character classes and regular expressions\<close>

text \<open>
  The methods of the NLU use \<open>str.strip\<close>, \<open>str.lower\<close> and the \<open>re\<close> module on
  Unicode strings. On ASCII code points the character classes are written out here; for
  the code points beyond ASCII they are the tables of the Python runtime, which are taken
  as parameters:
  \<^item> \<open>u_isspace\<close>: whitespace (\<open>\s\<close>, \<open>str.isspace\<close>);
  \<^item> \<open>u_isword\<close>: word characters (\<open>\w\<close>);
  \<^item> \<open>u_isdigit\<close>: decimal digits (\<open>\d\<close>);
  \<^item> \<open>u_lower\<close>: \<open>str.lower\<close> of a string that is not pure ASCII;
  \<^item> \<open>u_ci_eq\<close>: whether a pattern character matches a different text character
    under \<open>re.IGNORECASE\<close> when one of them is not ASCII.
\<close>

record unicode_db =
  u_isspace :: "nat \<Rightarrow> bool"
  u_isword :: "nat \<Rightarrow> bool"
  u_isdigit :: "nat \<Rightarrow> bool"
  u_lower :: "pystr \<Rightarrow> pystr"
  u_ci_eq :: "nat \<Rightarrow> nat \<Rightarrow> bool"

definition is_space :: "unicode_db \<Rightarrow> nat \<Rightarrow> bool" where
  "is_space db c =
     (if c < 128 then c = 32 \<or> (9 \<le> c \<and> c \<le> 13) \<or> (28 \<le> c \<and> c \<le> 31)
      else u_isspace db c)"

definition is_digit :: "unicode_db \<Rightarrow> nat \<Rightarrow> bool" where
  "is_digit db c = (if c < 128 then 48 \<le> c \<and> c \<le> 57 else u_isdigit db c)"

definition is_word :: "unicode_db \<Rightarrow> nat \<Rightarrow> bool" where
  "is_word db c =
     (if c < 128
      then (48 \<le> c \<and> c \<le> 57) \<or> (65 \<le> c \<and> c \<le> 90) \<or> (97 \<le> c \<and> c \<le> 122) \<or> c = 95
      else u_isword db c)"

definition ascii_lower :: "nat \<Rightarrow> nat" where
  "ascii_lower c = (if 65 \<le> c \<and> c \<le> 90 then c + 32 else c)"

text \<open>\<open>str.lower\<close>\<close>

definition lower :: "unicode_db \<Rightarrow> pystr \<Rightarrow> pystr" where
  "lower db text = (if list_all (\<lambda>c. c < 128) text then map ascii_lower text else u_lower db text)"

text \<open>\<open>str.strip\<close>\<close>

definition strip :: "unicode_db \<Rightarrow> pystr \<Rightarrow> pystr" where
  "strip db text = rev (dropWhile (is_space db) (rev (dropWhile (is_space db) text)))"

text \<open>
  \<open>re.sub(r'\s+', ' ', text)\<close>: every maximal run of whitespace becomes one space. The
  flag says whether the previous character was whitespace.
\<close>

fun collapse_spaces :: "unicode_db \<Rightarrow> bool \<Rightarrow> pystr \<Rightarrow> pystr" where
  "collapse_spaces db in_run [] = []"
| "collapse_spaces db in_run (c # cs) =
     (if is_space db c
      then (if in_run then collapse_spaces db True cs else 32 # collapse_spaces db True cs)
      else c # collapse_spaces db False cs)"

text \<open>A pattern character against a text character, with or without \<open>re.IGNORECASE\<close>.\<close>

definition char_matches :: "unicode_db \<Rightarrow> bool \<Rightarrow> nat \<Rightarrow> nat \<Rightarrow> bool" where
  "char_matches db ignorecase p c =
     (p = c \<or> (ignorecase \<and>
        (if p < 128 \<and> c < 128 then ascii_lower p = ascii_lower c else u_ci_eq db p c)))"

text \<open>
  A literal of the pattern matched at the head of the text: the text after the match, or
  \<open>None\<close>.
\<close>

fun match_literal :: "unicode_db \<Rightarrow> bool \<Rightarrow> pystr \<Rightarrow> pystr \<Rightarrow> pystr option" where
  "match_literal db ic [] cs = Some cs"
| "match_literal db ic (p # ps) [] = None"
| "match_literal db ic (p # ps) (c # cs) =
     (if char_matches db ic p c then match_literal db ic ps cs else None)"

text \<open>
  \<open>\b\<close> between two positions, each the character there or \<open>None\<close> at an end of the
  string: exactly one side is a word character.
\<close>

definition word_at :: "unicode_db \<Rightarrow> nat option \<Rightarrow> bool" where
  "word_at db c = (case c of None \<Rightarrow> False | Some x \<Rightarrow> is_word db x)"

definition boundary :: "unicode_db \<Rightarrow> nat option \<Rightarrow> nat option \<Rightarrow> bool" where
  "boundary db before after = (word_at db before \<noteq> word_at db after)"

definition head_option :: "'a list \<Rightarrow> 'a option" where
  "head_option xs = (case xs of [] \<Rightarrow> None | x # _ \<Rightarrow> Some x)"

definition last_option :: "'a option \<Rightarrow> 'a list \<Rightarrow> 'a option" where
  "last_option before xs = (if xs = [] then before else Some (last xs))"

text \<open>
  The group \<open>(a1|a2|...)\<close> followed by \<open>\b\<close>, tried at the head of the text: the
  alternatives are tried in order, and one whose match is not followed by a word
  boundary is given up for the next (backtracking). The result is the matched text.
\<close>

fun match_alternatives ::
  "unicode_db \<Rightarrow> bool \<Rightarrow> pystr list \<Rightarrow> nat option \<Rightarrow> pystr \<Rightarrow> pystr option" where
  "match_alternatives db ic [] before cs = None"
| "match_alternatives db ic (a # alts) before cs =
     (case match_literal db ic a cs of
        Some rest \<Rightarrow>
          (let m = take (length a) cs
           in if boundary db (last_option before m) (head_option rest) then Some m
              else match_alternatives db ic alts before cs)
      | None \<Rightarrow> match_alternatives db ic alts before cs)"

text \<open>The pattern \<open>\b(a1|a2|...)\b\<close> at the head of the text, \<open>before\<close> preceding it.\<close>

definition match_word ::
  "unicode_db \<Rightarrow> bool \<Rightarrow> pystr list \<Rightarrow> nat option \<Rightarrow> pystr \<Rightarrow> pystr option" where
  "match_word db ic alts before cs =
     (if boundary db before (head_option cs) then match_alternatives db ic alts before cs
      else None)"

text \<open>
  The left-to-right scan of \<open>re.findall\<close> and \<open>re.sub\<close> for \<open>\b(a1|a2|...)\b\<close> with
  non-empty alternatives: at each position outside a match the pattern is tried; a match
  is emitted (\<open>Inr\<close>) and the scan resumes after it, an unmatched character is emitted
  as it is (\<open>Inl\<close>). \<open>skip\<close> counts the characters of the current match still to pass.
\<close>

fun scan_words ::
  "unicode_db \<Rightarrow> bool \<Rightarrow> pystr list \<Rightarrow> nat option \<Rightarrow> nat \<Rightarrow> pystr \<Rightarrow> (nat + pystr) list" where
  "scan_words db ic alts before skip [] = []"
| "scan_words db ic alts before skip (c # cs) =
     (if skip > 0 then scan_words db ic alts (Some c) (skip - 1) cs
      else (case match_word db ic alts before (c # cs) of
              Some m \<Rightarrow> Inr m # scan_words db ic alts (Some c) (length m - 1) cs
            | None \<Rightarrow> Inl c # scan_words db ic alts (Some c) 0 cs))"

text \<open>\<open>re.findall(r'\b(a1|a2|...)\b', text, flags)\<close>: the matched texts, in order.\<close>

definition findall_words :: "unicode_db \<Rightarrow> bool \<Rightarrow> pystr list \<Rightarrow> pystr \<Rightarrow> pystr list" where
  "findall_words db ic alts text =
     concat (map (\<lambda>t. case t of Inl c \<Rightarrow> [] | Inr m \<Rightarrow> [m]) (scan_words db ic alts None 0 text))"

text \<open>\<open>re.sub(r'\b(a1|a2|...)\b', '', text)\<close>: the text without the matches.\<close>

definition remove_words :: "unicode_db \<Rightarrow> pystr list \<Rightarrow> pystr \<Rightarrow> pystr" where
  "remove_words db alts text =
     concat (map (\<lambda>t. case t of Inl c \<Rightarrow> [c] | Inr m \<Rightarrow> []) (scan_words db False alts None 0 text))"

text \<open>
  The quantity pattern \<open>(\d+(?:\.\d+)?)\s*(u1|u2|...)\<close> at the head of the text, under
  \<open>re.IGNORECASE\<close>: the two groups and the length of the whole match. Each repetition
  takes as much as it can; a shorter choice would leave a digit, a dot or a whitespace
  character where a unit has to start, so backtracking finds nothing more.
\<close>

definition first_unit :: "unicode_db \<Rightarrow> pystr list \<Rightarrow> pystr \<Rightarrow> pystr option" where
  "first_unit db units cs =
     (case filter (\<lambda>u. match_literal db True u cs \<noteq> None) units of
        [] \<Rightarrow> None
      | u # _ \<Rightarrow> Some (take (length u) cs))"

definition match_quantity ::
  "unicode_db \<Rightarrow> pystr list \<Rightarrow> pystr \<Rightarrow> ((pystr \<times> pystr) \<times> nat) option" where
  "match_quantity db units cs =
     (let int_part = takeWhile (is_digit db) cs;
          rest1 = dropWhile (is_digit db) cs
      in if int_part = [] then None
         else
           (let frac = (case rest1 of
                          [] \<Rightarrow> []
                        | d # ds \<Rightarrow>
                            (if d = 46 \<and> takeWhile (is_digit db) ds \<noteq> []
                             then d # takeWhile (is_digit db) ds else []));
                number = int_part @ frac;
                rest2 = drop (length frac) rest1;
                spaces = takeWhile (is_space db) rest2;
                rest3 = dropWhile (is_space db) rest2
            in case first_unit db units rest3 of
                 None \<Rightarrow> None
               | Some unit \<Rightarrow> Some ((number, unit), length number + length spaces + length unit)))"

fun scan_quantities ::
  "unicode_db \<Rightarrow> pystr list \<Rightarrow> nat \<Rightarrow> pystr \<Rightarrow> (pystr \<times> pystr) list" where
  "scan_quantities db units skip [] = []"
| "scan_quantities db units skip (c # cs) =
     (if skip > 0 then scan_quantities db units (skip - 1) cs
      else (case match_quantity db units (c # cs) of
              Some (groups, n) \<Rightarrow> groups # scan_quantities db units (n - 1) cs
            | None \<Rightarrow> scan_quantities db units 0 cs))"


subsection \<open>Tables and engines of the NLU\<close>

text \<open>
  The NLU object with its external models: \<open>intent_classifier\<close> is the text
  classification pipeline (its result is not used, only whether it raises), and
  \<open>entity_extractors\<close> gives the NER pipeline stored under each of the keys \<open>hi\<close>,
  \<open>en\<close> and \<open>kn\<close>. A NER result is the dictionary with the keys \<open>entity\<close>, \<open>word\<close>
  and \<open>score\<close>.
\<close>

record ner_result =
  ner_entity :: string
  ner_word :: pystr
  ner_score :: rat

record multilingual_nlu =
  intent_classifier :: "pystr \<Rightarrow> exn + unit"
  entity_extractors :: "string \<Rightarrow> pystr \<Rightarrow> exn + ner_result list"

text \<open>
  \<open>self.multilingual_keywords\<close>, the crop and season patterns of
  \<open>_extract_agricultural_entities\<close> (the alternatives of each \<open>\b(...)\b\<close>, in order),
  the units of its quantity pattern and the filler words of \<open>_preprocess_text\<close>. All
  in source order; the Hindi and Kannada words are given by their code points.
\<close>

definition multilingual_keywords :: "(string \<times> (string \<times> pystr list) list) list" where
  "multilingual_keywords =
      [(''crop_advice'',
        [(''hi'',
          [[2347, 2360, 2354], [2348, 2369, 2310, 2312], [2326, 2375, 2340, 2368], [2313,
           2327, 2366, 2344, 2366]]),
         (''en'',
          [str ''crop'', str ''planting'', str ''farming'', str ''growing'']),
         (''kn'',
          [[3244, 3270, 3251, 3270], [3244, 3263, 3236, 3277, 3236, 3240, 3270], [3221,
           3267, 3255, 3263], [3244, 3270, 3251, 3270, 3247, 3265, 3253]])]),
       (''pest_disease'',
        [(''hi'',
          [[2325, 2368, 2335], [2352, 2379, 2327], [2348, 2368, 2350, 2366, 2352, 2368],
           [2344, 2369, 2325, 2360, 2366, 2344]]),
         (''en'',
          [str ''pest'', str ''disease'', str ''insect'', str ''damage'']),
         (''kn'',
          [[3221, 3264, 3231], [3248, 3275, 3223], [3221, 3264, 3231, 3221], [3257, 3262,
           3240, 3263]])])]"

definition crop_patterns :: "(string \<times> pystr list) list" where
  "crop_patterns =
     [(''hi'',
       [[2343, 2366, 2344], [2327, 2375, 2361, 2370, 2306], [2350, 2325, 2381, 2325, 2366],
        [2335, 2350, 2366, 2335, 2352], [2346, 2381, 2351, 2366, 2332], [2325, 2346, 2366,
        2360], [2327, 2344, 2381, 2344, 2366], [2361, 2354, 2381, 2342, 2368], [2350, 2367,
        2352, 2381, 2330]]),
      (''en'',
       [str ''rice'', str ''wheat'', str ''corn'', str ''tomato'', str ''onion'',
        str ''cotton'', str ''sugarcane'', str ''turmeric'', str ''chili'']),
      (''kn'',
       [[3205, 3221, 3277, 3221, 3263], [3223, 3275, 3239, 3263], [3228, 3275, 3251], [3231,
        3274, 3246, 3271, 3231, 3274], [3208, 3248, 3265, 3251, 3277, 3251, 3263], [3221,
        3242, 3262, 3256, 3265], [3221, 3244, 3277, 3244, 3265], [3205, 3248, 3263, 3254,
        3263, 3240], [3246, 3270, 3235, 3256, 3263, 3240, 3221, 3262, 3247, 3263]])]"

definition season_patterns :: "(string \<times> pystr list) list" where
  "season_patterns =
     [(''hi'',
       [[2326, 2352, 2368, 2347], [2352, 2348, 2368], [2332, 2366, 2351, 2342], [2350, 2366,
        2344, 2360, 2370, 2344]]),
      (''en'',
       [str ''kharif'', str ''rabi'', str ''zaid'', str ''monsoon'', str ''summer'',
        str ''winter'']),
      (''kn'',
       [[3222, 3248, 3264, 3243, 3277], [3248, 3244, 3263], [3228, 3262, 3247, 3238, 3277],
        [3246, 3262, 3240, 3277, 3256, 3266, 3240, 3277]])]"

definition quantity_units :: "pystr list" where
  "quantity_units =
     [[2325, 2367, 2354, 2379], str ''kg'', [2354, 2368, 2335, 2352], str ''liter'', [2319,
      2325, 2337, 2364], str ''acre'', [2361, 2375, 2325, 2381, 2335, 2375, 2351, 2352],
      str ''hectare'']"

definition hindi_fillers :: "pystr list" where
  "hindi_fillers =
     [[2332, 2368], [2361, 2366, 2305], [2344, 2361, 2368, 2306], [2325, 2381, 2351, 2366],
      [2325, 2376, 2360, 2375]]"

definition kannada_fillers :: "pystr list" where
  "kannada_fillers =
     [[3257, 3276, 3238, 3265], [3207, 3250, 3277, 3250], [3215, 3240, 3265], [3257, 3271,
      3223, 3270]]"

subsection \<open>The methods of the NLU\<close>

text \<open>\<open>d.get(key, default)\<close> on a dictionary given as an association list.\<close>

definition dict_get :: "('k \<times> 'v) list \<Rightarrow> 'k \<Rightarrow> 'v \<Rightarrow> 'v" where
  "dict_get d k dflt = (case map_of d k of Some v \<Rightarrow> v | None \<Rightarrow> dflt)"

text \<open>\<open>_preprocess_text\<close>\<close>

definition preprocess_text :: "unicode_db \<Rightarrow> pystr \<Rightarrow> string \<Rightarrow> pystr" where
  "preprocess_text db text lang =
     (let text1 = collapse_spaces db False (strip db text);
          text2 = (if lang = ''hi'' then remove_words db hindi_fillers text1
                   else if lang = ''kn'' then remove_words db kannada_fillers text1
                   else text1)
      in lower db text2)"

text \<open>
  The keyword loop of \<open>_classify_intent\<close>: \<open>intent_scores\<close> as an association list in
  insertion order. An intent enters with the fraction of its keywords that occur in the
  text, if any occurs.
\<close>

definition keywords_for :: "(string \<times> pystr list) list \<Rightarrow> string \<Rightarrow> pystr list" where
  "keywords_for lang_keywords lang = dict_get lang_keywords lang (dict_get lang_keywords ''en'' [])"

fun intent_scores ::
  "(string \<times> (string \<times> pystr list) list) list \<Rightarrow> pystr \<Rightarrow> string \<Rightarrow> (string \<times> rat) list" where
  "intent_scores [] text lang = []"
| "intent_scores ((intent, lang_keywords) # rest) text lang =
     (let keywords = keywords_for lang_keywords lang;
          score = length (filter (contains text) keywords)
      in if score > 0
         then (intent, of_nat score / of_nat (length keywords)) # intent_scores rest text lang
         else intent_scores rest text lang)"

text \<open>\<open>intent_scores[context.current_intent] *= 1.2\<close>, when the key is present.\<close>

definition boost :: "string \<Rightarrow> (string \<times> rat) list \<Rightarrow> (string \<times> rat) list" where
  "boost cur scores =
     (if cur \<noteq> [] \<and> cur \<in> fst ` set scores
      then map (\<lambda>(i, s). if i = cur then (i, s * (6 / 5)) else (i, s)) scores
      else scores)"

text \<open>
  \<open>max(intent_scores, key=intent_scores.get)\<close>: the first key, in insertion order,
  whose score no other exceeds. \<open>best\<close> is the pair found so far.
\<close>

fun max_by_score :: "string \<times> rat \<Rightarrow> (string \<times> rat) list \<Rightarrow> string \<times> rat" where
  "max_by_score best [] = best"
| "max_by_score best ((i, s) # rest) =
     (if s > snd best then max_by_score (i, s) rest else max_by_score best rest)"

text \<open>\<open>_classify_intent\<close>\<close>

definition classify_intent ::
  "multilingual_nlu \<Rightarrow> pystr \<Rightarrow> string \<Rightarrow> conversation_context \<Rightarrow> string \<times> rat" where
  "classify_intent nlu text lang context =
     (case boost (current_intent context) (intent_scores multilingual_keywords text lang) of
        first # rest \<Rightarrow>
          (let (best_intent, score) = max_by_score first rest
           in (best_intent, min (9 / 10) score))
      | [] \<Rightarrow>
          (case intent_classifier nlu text of
             Inr result \<Rightarrow> (''general_query'', 6 / 10)
           | Inl e \<Rightarrow> (''general_query'', 5 / 10)))"

text \<open>\<open>_extract_agricultural_entities\<close>\<close>

definition pattern_entities :: "rat \<Rightarrow> pystr list \<Rightarrow> entity list" where
  "pattern_entities conf vs = map (\<lambda>v. \<lparr>e_value = v, e_confidence = conf\<rparr>) vs"

definition extract_agricultural_entities ::
  "unicode_db \<Rightarrow> pystr \<Rightarrow> string \<Rightarrow> string \<Rightarrow> entities" where
  "extract_agricultural_entities db text lang intent =
     (let crops = findall_words db True
                    (dict_get crop_patterns lang (dict_get crop_patterns ''en'' [])) text;
          e1 = (if crops \<noteq> [] then [''crops'' \<mapsto> pattern_entities (8 / 10) crops]
                else Map.empty);
          quantities = scan_quantities db quantity_units 0 text;
          e2 = (if quantities \<noteq> []
                then e1(''quantities'' \<mapsto>
                       pattern_entities (9 / 10) (map (\<lambda>(n, u). n @ [32] @ u) quantities))
                else e1);
          seasons = findall_words db True
                      (dict_get season_patterns lang (dict_get season_patterns ''en'' [])) text;
          e3 = (if seasons \<noteq> [] then e2(''seasons'' \<mapsto> pattern_entities (8 / 10) seasons)
                else e2)
      in e3)"

text \<open>
  The loop of \<open>_extract_entities\<close> over the NER results: a result with score above 0.5
  is appended to the list of its entity type.
\<close>

fun ner_entities :: "entities \<Rightarrow> ner_result list \<Rightarrow> entities" where
  "ner_entities ents [] = ents"
| "ner_entities ents (r # rs) =
     (if ner_score r > 5 / 10
      then ner_entities
             (ents(ner_entity r \<mapsto>
                (case ents (ner_entity r) of None \<Rightarrow> [] | Some vs \<Rightarrow> vs)
                  @ [\<lparr>e_value = ner_word r, e_confidence = ner_score r\<rparr>]))
             rs
      else ner_entities ents rs)"

text \<open>
  \<open>_extract_entities\<close>: the NER model of the language (that of \<open>en\<close> for an unknown
  language); when it raises, the handler leaves the entities empty and the pattern
  entities are not added.
\<close>

definition ner_model :: "multilingual_nlu \<Rightarrow> string \<Rightarrow> pystr \<Rightarrow> exn + ner_result list" where
  "ner_model nlu lang =
     (if lang \<in> {''hi'', ''en'', ''kn''} then entity_extractors nlu lang
      else entity_extractors nlu ''en'')"

definition extract_entities ::
  "multilingual_nlu \<Rightarrow> unicode_db \<Rightarrow> pystr \<Rightarrow> string \<Rightarrow> string \<Rightarrow> entities" where
  "extract_entities nlu db text lang intent =
     (case ner_model nlu lang text of
        Inl e \<Rightarrow> Map.empty
      | Inr ner_results \<Rightarrow>
          ner_entities Map.empty ner_results ++ extract_agricultural_entities db text lang intent)"

text \<open>
  \<open>understand\<close>. None of the three steps raises (each is a total function of strings, or
  catches what its model raises), so the handler of \<open>understand\<close>, which would return
  \<open>("general_query", {}, 0.5)\<close>, is never entered.
\<close>

definition understand ::
  "multilingual_nlu \<Rightarrow> unicode_db \<Rightarrow> pystr \<Rightarrow> string \<Rightarrow> conversation_context
     \<Rightarrow> string \<times> entities \<times> rat" where
  "understand nlu db text lang context =
     (let cleaned_text = preprocess_text db text lang;
          (intent, intent_confidence) = classify_intent nlu cleaned_text lang context;
          ents = extract_entities nlu db cleaned_text lang intent;
          overall_confidence = intent_confidence * (8 / 10) + 2 / 10
      in (intent, ents, overall_confidence))"

text \<open>
  Whether no intent of \<open>multilingual_keywords\<close> has a keyword of the language (of \<open>en\<close>
  for a language without a list) in the text.
\<close>

definition no_intent_keyword :: "string \<Rightarrow> pystr \<Rightarrow> bool" where
  "no_intent_keyword lang text =
     list_all (\<lambda>(intent, lang_keywords). \<not> list_ex (contains text) (keywords_for lang_keywords lang))
       multilingual_keywords"

section \<open>Response generation of VoiceProcessingSystem\<close>

text \<open>
  \<open>_load_response_templates\<close> and the response dictionaries of the
  \<open>_generate_..._response\<close> methods, in source order. A string with characters beyond
  ASCII is given by its code points.
\<close>

definition response_templates :: "(string \<times> (string \<times> pystr) list) list" where
  "response_templates =
     [(''greeting'',
       [(''hi'',
         [2344, 2350, 2360, 2381, 2340, 2375, 33, 32, 2350, 2376, 2306, 32, 2361, 2360,
         2367, 2352, 2369, 32, 2350, 2367, 2340, 2381, 2352, 32, 2361, 2370, 2305, 2404, 32,
         2310, 2346, 2325, 2368, 32, 2326, 2375, 2340, 2368, 32, 2350, 2375, 2306, 32, 2325,
         2376, 2360, 2375, 32, 2350, 2342, 2342, 32, 2325, 2352, 32, 2360, 2325, 2340, 2368,
         32, 2361, 2370, 2305, 63]),
        (''en'',
         str ''Hello! I am Hasiru Mitra. How can I help you with your farming today?''),
        (''kn'',
         [3240, 3246, 3256, 3277, 3221, 3262, 3248, 33, 32, 3240, 3262, 3240, 3265, 32,
         3257, 3256, 3263, 3248, 3265, 32, 3246, 3263, 3236, 3277, 3248, 46, 32, 3240, 3263,
         3246, 3277, 3246, 32, 3221, 3267, 3255, 3263, 3247, 3250, 3277, 3250, 3263, 32,
         3240, 3262, 3240, 3265, 32, 3257, 3271, 3223, 3270, 32, 3256, 3257, 3262, 3247, 32,
         3246, 3262, 3233, 3244, 3257, 3265, 3238, 3265, 63])]),
      (''crop_advice'',
       [(''hi'',
         [2310, 2346, 2325, 2368, 32, 2347, 2360, 2354, 32, 2325, 2375, 32, 2348, 2366,
         2352, 2375, 32, 2350, 2375, 2306, 32, 2350, 2369, 2333, 2375, 32, 2348, 2340, 2366,
         2319, 2306, 2404, 32, 2325, 2380, 2344, 32, 2360, 2368, 32, 2347, 2360, 2354, 32,
         2313, 2327, 2366, 2344, 2366, 32, 2330, 2366, 2361, 2340, 2375, 32, 2361, 2376,
         2306, 63]),
        (''en'',
         str ''Tell me about your crop. Which crop do you want to grow?''),
        (''kn'',
         [3240, 3263, 3246, 3277, 3246, 32, 3244, 3270, 3251, 3270, 3247, 32, 3244, 3223,
         3277, 3223, 3270, 32, 3257, 3271, 3251, 3263, 46, 32, 3247, 3262, 3253, 32, 3244,
         3270, 3251, 3270, 32, 3244, 3270, 3251, 3270, 3247, 3250, 3265, 32, 3244, 3247,
         3256, 3265, 3236, 3277, 3236, 3264, 3248, 3263, 63])]),
      (''pest_disease'',
       [(''hi'',
         [2310, 2346, 2325, 2368, 32, 2347, 2360, 2354, 32, 2350, 2375, 2306, 32, 2325,
         2381, 2351, 2366, 32, 2360, 2350, 2360, 2381, 2351, 2366, 32, 2361, 2376, 63, 32,
         2325, 2371, 2346, 2351, 2366, 32, 2357, 2367, 2360, 2381, 2340, 2366, 2352, 32,
         2360, 2375, 32, 2348, 2340, 2366, 2319, 2306, 2404]),
        (''en'',
         str ''What problem are you facing with your crop? Please describe in detail.''),
        (''kn'',
         [3240, 3263, 3246, 3277, 3246, 32, 3244, 3270, 3251, 3270, 3247, 3250, 3277, 3250,
         3263, 32, 3215, 3240, 3265, 32, 3256, 3246, 3256, 3277, 3247, 3270, 32, 3207, 3238,
         3270, 63, 32, 3238, 3247, 3253, 3263, 3231, 3277, 3231, 3265, 32, 3253, 3263, 3256,
         3277, 3236, 3262, 3248, 3253, 3262, 3223, 3263, 32, 3257, 3271, 3251, 3263, 46])]),
      (''error'',
       [(''hi'',
         [2350, 2366, 2347, 2364, 32, 2325, 2352, 2375, 2306, 44, 32, 2350, 2369, 2333,
         2375, 32, 2360, 2350, 2333, 2344, 2375, 32, 2350, 2375, 2306, 32, 2325, 2336, 2367,
         2344, 2366, 2312, 32, 2361, 2369, 2312, 2404, 32, 2325, 2371, 2346, 2351, 2366, 32,
         2347, 2367, 2352, 32, 2360, 2375, 32, 2348, 2340, 2366, 2319, 2306, 2404]),
        (''en'',
         str ''Sorry, I had difficulty understanding. Please tell me again.''),
        (''kn'',
         [3221, 3277, 3255, 3246, 3263, 3256, 3263, 44, 32, 3240, 3240, 3223, 3270, 32,
         3205, 3248, 3277, 3237, 3246, 3262, 3233, 3263, 3221, 3274, 3251, 3277, 3251, 3265,
         3253, 3250, 3277, 3250, 3263, 32, 3221, 3255, 3277, 3231, 3253, 3262, 3247, 3263,
         3236, 3265, 46, 32, 3238, 3247, 3253, 3263, 3231, 3277, 3231, 3265, 32, 3246, 3236,
         3277, 3236, 3270, 32, 3257, 3271, 3251, 3263, 46])])]"

definition pest_responses :: "(string \<times> pystr) list" where
  "pest_responses =
     [(''hi'',
       [2325, 2368, 2335, 32, 2351, 2366, 32, 2352, 2379, 2327, 32, 2325, 2368, 32, 2346,
       2361, 2330, 2366, 2344, 32, 2325, 2375, 32, 2354, 2367, 2319, 32, 2346, 2340, 2381,
       2340, 2367, 2351, 2379, 2306, 32, 2325, 2368, 32, 2340, 2360, 2381, 2357, 2368, 2352,
       32, 2349, 2375, 2332, 2375, 2306, 2404, 32, 2340, 2348, 32, 2340, 2325, 32, 2344,
       2368, 2350, 32, 2325, 2366, 32, 2340, 2375, 2354, 32, 2331, 2367, 2337, 2364, 2325,
       2375, 2306, 2404]),
      (''en'',
       str ''Send photos of leaves for pest/disease identification. Meanwhile, spray neem oil.''),
      (''kn'',
       [3221, 3264, 3231, 32, 3205, 3237, 3253, 3262, 32, 3248, 3275, 3223, 32, 3223, 3265,
       3248, 3265, 3236, 3263, 3256, 3250, 3265, 32, 3214, 3250, 3270, 3223, 3251, 32, 3243,
       3275, 3231, 3275, 32, 3221, 3251, 3265, 3257, 3263, 3256, 3263, 46, 32, 3205, 3255,
       3277, 3231, 3248, 3250, 3277, 3250, 3263, 32, 3244, 3271, 3253, 3263, 3240, 32, 3214,
       3235, 3277, 3235, 3270, 32, 3256, 3263, 3202, 3242, 3233, 3263, 3256, 3263, 46])]"

definition weather_responses :: "(string \<times> pystr) list" where
  "weather_responses =
     [(''hi'',
       [2350, 2380, 2360, 2350, 32, 2325, 2368, 32, 2332, 2366, 2344, 2325, 2366, 2352,
       2368, 32, 2325, 2375, 32, 2354, 2367, 2319, 32, 2310, 2346, 2325, 2366, 32, 2360,
       2381, 2341, 2366, 2344, 32, 2348, 2340, 2366, 2319, 2306, 2404, 32, 2348, 2366, 2352,
       2367, 2358, 32, 2360, 2375, 32, 2346, 2361, 2354, 2375, 32, 2347, 2360, 2354, 32,
       2325, 2368, 32, 2360, 2369, 2352, 2325, 2381, 2359, 2366, 32, 2325, 2352, 2375, 2306,
       2404]),
      (''en'',
       str ''Tell me your location for weather information. Protect crops before rain.''),
      (''kn'',
       [3257, 3253, 3262, 3246, 3262, 3240, 32, 3246, 3262, 3257, 3263, 3236, 3263, 3223,
       3262, 3223, 3263, 32, 3240, 3263, 3246, 3277, 3246, 32, 3256, 3277, 3237, 3251, 3253,
       3240, 3277, 3240, 3265, 32, 3257, 3271, 3251, 3263, 46, 32, 3246, 3251, 3270, 3247,
       32, 3246, 3274, 3238, 3250, 3265, 32, 3244, 3270, 3251, 3270, 3223, 3251, 3240, 3277,
       3240, 3265, 32, 3248, 3221, 3277, 3255, 3263, 3256, 3263, 46])]"

definition market_responses :: "(string \<times> pystr) list" where
  "market_responses =
     [(''hi'',
       [2348, 2366, 2332, 2366, 2352, 32, 2349, 2366, 2357, 32, 2332, 2366, 2344, 2344,
       2375, 32, 2325, 2375, 32, 2354, 2367, 2319, 32, 2347, 2360, 2354, 32, 2325, 2366, 32,
       2344, 2366, 2350, 32, 2348, 2340, 2366, 2319, 2306, 2404, 32, 2310, 2332, 32, 2325,
       2375, 32, 2352, 2375, 2335, 32, 2342, 2375, 2326, 32, 2360, 2325, 2340, 2375, 32,
       2361, 2376, 2306, 2404]),
      (''en'',
       str ''Tell me the crop name to know market rates. You can check today'' @ [39] @
       str ''s prices.''),
      (''kn'',
       [3246, 3262, 3248, 3265, 3221, 3231, 3277, 3231, 3270, 32, 3238, 3248, 3223, 3251,
       3240, 3277, 3240, 3265, 32, 3236, 3263, 3251, 3263, 3247, 3250, 3265, 32, 3244, 3270,
       3251, 3270, 3247, 32, 3257, 3270, 3256, 3248, 3265, 32, 3257, 3271, 3251, 3263, 46,
       32, 3207, 3202, 3238, 3263, 3240, 32, 3244, 3270, 3250, 3270, 3223, 3251, 3240, 3277,
       3240, 3265, 32, 3240, 3275, 3233, 3244, 3257, 3265, 3238, 3265, 46])]"

definition general_responses :: "(string \<times> pystr) list" where
  "general_responses =
     [(''hi'',
       [2350, 2376, 2306, 32, 2310, 2346, 2325, 2368, 32, 2326, 2375, 2340, 2368, 32, 2350,
       2375, 2306, 32, 2350, 2342, 2342, 32, 2325, 2375, 32, 2354, 2367, 2319, 32, 2351,
       2361, 2366, 2305, 32, 2361, 2370, 2305, 2404, 32, 2347, 2360, 2354, 44, 32, 2325,
       2368, 2335, 44, 32, 2350, 2380, 2360, 2350, 32, 2351, 2366, 32, 2348, 2366, 2332,
       2366, 2352, 32, 2325, 2375, 32, 2348, 2366, 2352, 2375, 32, 2350, 2375, 2306, 32,
       2346, 2370, 2331, 32, 2360, 2325, 2340, 2375, 32, 2361, 2376, 2306, 2404]),
      (''en'',
       str ''I am here to help with your farming. You can ask about crops, pests, weather, or market.''),
      (''kn'',
       [3240, 3262, 3240, 3265, 32, 3240, 3263, 3246, 3277, 3246, 32, 3221, 3267, 3255,
       3263, 3223, 3270, 32, 3256, 3257, 3262, 3247, 32, 3246, 3262, 3233, 3250, 3265, 32,
       3207, 3250, 3277, 3250, 3263, 3238, 3277, 3238, 3271, 3240, 3270, 46, 32, 3244, 3270,
       3251, 3270, 44, 32, 3221, 3264, 3231, 44, 32, 3257, 3253, 3262, 3246, 3262, 3240, 32,
       3205, 3237, 3253, 3262, 32, 3246, 3262, 3248, 3265, 3221, 3231, 3277, 3231, 3270, 32,
       3244, 3223, 3277, 3223, 3270, 32, 3221, 3271, 3251, 3244, 3257, 3265, 3238, 3265, 46])]"

definition crop_responses :: "pystr \<Rightarrow> (string \<times> pystr) list" where
  "crop_responses crop =
     [(''hi'',
       crop @ [32, 2325, 2368, 32, 2326, 2375, 2340, 2368, 32, 2325, 2375, 32, 2354, 2367,
       2319, 32, 2360, 2348, 2360, 2375, 32, 2346, 2361, 2354, 2375, 32, 2350, 2367, 2335,
       2381, 2335, 2368, 32, 2325, 2368, 32, 2332, 2366, 2306, 2330, 32, 2325, 2352, 2366,
       2319, 2306, 2404, 32, 2313, 2330, 2367, 2340, 32, 2348, 2368, 2332, 32, 2325, 2366,
       32, 2330, 2351, 2344, 32, 2325, 2352, 2375, 2306, 2404]),
      (''en'',
       str ''For '' @ crop @
       str '' cultivation, first get your soil tested. Choose appropriate seeds.''),
      (''kn'',
       crop @ [32, 3244, 3270, 3251, 3253, 3235, 3263, 3223, 3270, 3223, 3262, 3223, 3263,
       44, 32, 3246, 3274, 3238, 3250, 3265, 32, 3240, 3263, 3246, 3277, 3246, 32, 3246,
       3235, 3277, 3235, 3263, 3240, 32, 3242, 3248, 3264, 3221, 3277, 3255, 3270, 32, 3246,
       3262, 3233, 3263, 3256, 3263, 46, 32, 3256, 3266, 3221, 3277, 3236, 3253, 3262, 3238,
       32, 3244, 3264, 3228, 3223, 3251, 3240, 3277, 3240, 3265, 32, 3206, 3247, 3277, 3221,
       3270, 3246, 3262, 3233, 3263, 46])]"

text \<open>\<open>d[key]\<close> on a dictionary given as an association list: \<open>KeyError\<close> if absent.\<close>

definition subscript :: "('k \<times> 'v) list \<Rightarrow> 'k \<Rightarrow> exn + 'v" where
  "subscript d k = (case map_of d k of Some v \<Rightarrow> Inr v | None \<Rightarrow> Inl KeyError)"

text \<open>\<open>self.response_templates[name][language]\<close>\<close>

definition template :: "string \<Rightarrow> string \<Rightarrow> exn + pystr" where
  "template name lang =
     (case subscript response_templates name of
        Inl e \<Rightarrow> Inl e
      | Inr d \<Rightarrow> subscript d lang)"

text \<open>
  \<open>_generate_crop_advice_response\<close>: \<open>entities['crops'][0]['value']\<close> raises
  \<open>IndexError\<close> on an empty list. The dictionary \<open>responses\<close> always has the key
  \<open>en\<close>.
\<close>

definition generate_crop_advice_response ::
  "entities \<Rightarrow> conversation_context \<Rightarrow> string \<Rightarrow> exn + pystr" where
  "generate_crop_advice_response ents context lang =
     (case ents ''crops'' of
        Some crops \<Rightarrow>
          (case crops of
             [] \<Rightarrow> Inl IndexError
           | first # _ \<Rightarrow>
               (let crop = e_value first;
                    responses = crop_responses crop
                in case subscript responses ''en'' of
                     Inl e \<Rightarrow> Inl e
                   | Inr en \<Rightarrow> Inr (dict_get responses lang en)))
      | None \<Rightarrow> template ''crop_advice'' lang)"

text \<open>
  The four methods that answer \<open>responses.get(language, responses['en'])\<close> from a
  fixed dictionary.
\<close>

definition get_or_en :: "(string \<times> pystr) list \<Rightarrow> string \<Rightarrow> exn + pystr" where
  "get_or_en responses lang =
     (case subscript responses ''en'' of
        Inl e \<Rightarrow> Inl e
      | Inr en \<Rightarrow> Inr (dict_get responses lang en))"

definition generate_pest_response ::
  "entities \<Rightarrow> conversation_context \<Rightarrow> string \<Rightarrow> exn + pystr" where
  "generate_pest_response ents context lang = get_or_en pest_responses lang"

definition generate_weather_response ::
  "entities \<Rightarrow> conversation_context \<Rightarrow> string \<Rightarrow> exn + pystr" where
  "generate_weather_response ents context lang = get_or_en weather_responses lang"

definition generate_market_response ::
  "entities \<Rightarrow> conversation_context \<Rightarrow> string \<Rightarrow> exn + pystr" where
  "generate_market_response ents context lang = get_or_en market_responses lang"

definition generate_general_response ::
  "entities \<Rightarrow> conversation_context \<Rightarrow> string \<Rightarrow> exn + pystr" where
  "generate_general_response ents context lang = get_or_en general_responses lang"

text \<open>\<open>_generate_response\<close>\<close>

definition generate_response ::
  "string \<Rightarrow> entities \<Rightarrow> conversation_context \<Rightarrow> string \<Rightarrow> exn + pystr" where
  "generate_response intent ents context lang =
     (if intent = ''greeting'' \<or> conversation_history context = []
      then template ''greeting'' lang
      else if intent = ''crop_advice'' then generate_crop_advice_response ents context lang
      else if intent = ''pest_disease'' then generate_pest_response ents context lang
      else if intent = ''weather'' then generate_weather_response ents context lang
      else if intent = ''market_price'' then generate_market_response ents context lang
      else generate_general_response ents context lang)"

text \<open>
  \<open>_create_error_response\<close>, its response text:
  \<open>self.response_templates['error'].get(language, self.response_templates['error']['en'])\<close>.
\<close>

definition error_text :: "string \<Rightarrow> exn + pystr" where
  "error_text lang =
     (case subscript response_templates ''error'' of
        Inl e \<Rightarrow> Inl e
      | Inr d \<Rightarrow> get_or_en d lang)"

section \<open>Properties of the context store\<close>

lemma last_n_last_n_append: "last_n n (last_n n xs @ ys) = last_n n (xs @ ys)"
proof (cases "length xs \<le> n")
  case True
  then show ?thesis by (simp add: last_n_def)
next
  case False
  then have a: "length xs + length ys - (length xs - n + n) + (length xs - n) = length xs + length ys - n"
    by arith
  from False have b: "length xs - n + n = length xs" by arith
  show ?thesis using False a b by (simp add: last_n_def)
qed

lemma update_context_other:
  "sid \<noteq> s \<Longrightarrow> active_sessions (update_context m now sid i e inp r) s = active_sessions m s"
  by (simp add: update_context_def Let_def split: option.splits)

lemma get_or_create_other:
  "sid \<noteq> s \<Longrightarrow> active_sessions (snd (get_or_create_context m u sid l)) s = active_sessions m s"
  by (simp add: get_or_create_context_def Let_def split: option.splits)

lemma get_or_create_same:
  "active_sessions m s = Some c \<Longrightarrow>
   get_or_create_context m u s l =
     (c\<lparr>language := l\<rparr>, m\<lparr>active_sessions := (active_sessions m)(s \<mapsto> c\<lparr>language := l\<rparr>)\<rparr>)"
  by (simp add: get_or_create_context_def Let_def)

lemma update_context_same:
  "active_sessions m s = Some c \<Longrightarrow>
   \<exists>c'. active_sessions (update_context m now s i e inp r) s = Some c' \<and>
     conversation_history c' = last_n 10 (conversation_history c @
        [\<lparr>t_timestamp = now, t_user_input = inp, t_intent = i, t_entities = e, t_response = r\<rparr>])"
  by (simp add: update_context_def Let_def)

lemma run_Nil: "run m [] = m"
  by (simp add: run_def)

lemma run_Cons: "run m (tc # cs) = run (fst (exec m tc)) cs"
  by (simp add: run_def)

lemma fst_exec_GetOrCreate:
  "fst (exec m (now, GetOrCreate u sid l)) = snd (get_or_create_context m u sid l)"
  by (simp add: split_def Let_def)

lemma history_run:
  "active_sessions m s = Some c \<Longrightarrow>
   \<exists>c'. active_sessions (run m calls) s = Some c' \<and>
        last_n 10 (conversation_history c') = last_n 10 (conversation_history c @ turns_of s calls)
      \<and> (length (conversation_history c) \<le> 10 \<longrightarrow> length (conversation_history c') \<le> 10)"
proof (induction calls arbitrary: m c)
  case Nil
  then show ?case by (simp add: run_Nil)
next
  case (Cons tc cs)
  obtain now cl where tc: "tc = (now, cl)" by (cases tc)
  show ?case
  proof (cases cl)
    case (GetOrCreate u sid l)
    show ?thesis
    proof (cases "sid = s")
      case True
      have "active_sessions (fst (exec m tc)) s = Some (c\<lparr>language := l\<rparr>)"
        using Cons.prems True tc GetOrCreate
        by (simp add: fst_exec_GetOrCreate get_or_create_same del: exec.simps)
      from Cons.IH[OF this] show ?thesis
        using tc GetOrCreate by (simp add: run_Cons)
    next
      case False
      have "active_sessions (fst (exec m tc)) s = Some c"
        using Cons.prems False tc GetOrCreate get_or_create_other[OF False, of m u l]
        by (simp add: fst_exec_GetOrCreate del: exec.simps)
      from Cons.IH[OF this] show ?thesis
        using tc GetOrCreate by (simp add: run_Cons)
    qed
  next
    case (Update sid i e inp r)
    show ?thesis
    proof (cases "sid = s")
      case True
      obtain c1 where c1: "active_sessions (fst (exec m tc)) s = Some c1"
        and h1: "conversation_history c1 = last_n 10 (conversation_history c @
        [\<lparr>t_timestamp = now, t_user_input = inp, t_intent = i, t_entities = e, t_response = r\<rparr>])"
        using update_context_same[OF Cons.prems, of now i e inp r] True tc Update by auto
      have len: "length (conversation_history c1) \<le> 10" by (simp add: h1 last_n_def)
      from Cons.IH[OF c1] len show ?thesis
        using tc Update True h1 by (auto simp add: run_Cons last_n_last_n_append)
    next
      case False
      have "active_sessions (fst (exec m tc)) s = Some c"
        using Cons.prems False tc Update by (simp add: update_context_other)
      from Cons.IH[OF this] show ?thesis
        using tc Update False by (simp add: run_Cons)
    qed
  qed
qed


lemma length_last_n: "length (last_n n xs) = min (length xs) n"
  by (simp add: last_n_def)

lemma last_n_id: "length xs \<le> n \<Longrightarrow> last_n n xs = xs"
  by (simp add: last_n_def)

text \<open>
  C7: calling \<open>update_context\<close> with a session id that is not in \<open>active_sessions\<close>
  leaves the manager exactly as it was: no session is created and no stored context
  changes.
\<close>

theorem update_context_unknown_session_noop:
  "active_sessions m sid = None \<Longrightarrow>
   update_context m now sid intent ents user_input response = m"
  by (simp add: update_context_def)

theorem update_context_unknown_session_noop_witness:
  "active_sessions ConversationManager_init ''CA1'' = None \<and>
   update_context ConversationManager_init 5 ''CA1'' ''weather'' Map.empty
     (str ''rain'') (str ''ok'') = ConversationManager_init"
proof -
  have h: "active_sessions ConversationManager_init ''CA1'' = None"
    by (simp add: ConversationManager_init_def)
  show ?thesis
    using h update_context_unknown_session_noop [OF h] by simp
qed

text \<open>
  C2 (as stated, refuted): a second \<open>update_context\<close> whose entities carry the key
  \<open>crops\<close> again does not append to the accumulated list; the list of the later turn
  replaces the earlier one.
\<close>

theorem update_context_appends_counterexample:
  "map_option (\<lambda>c. entities c ''crops'')
     (active_sessions
        (run ConversationManager_init
           [(0, GetOrCreate ''u'' ''s'' ''en''),
            (1, Update ''s'' ''crop_advice''
                  [''crops'' \<mapsto> [\<lparr>e_value = str ''rice'', e_confidence = 4 / 5\<rparr>]]
                  (str ''rice'') (str ''ok'')),
            (2, Update ''s'' ''crop_advice''
                  [''crops'' \<mapsto> [\<lparr>e_value = str ''wheat'', e_confidence = 4 / 5\<rparr>]]
                  (str ''wheat'') (str ''ok''))])
        ''s'')
   = Some (Some [\<lparr>e_value = str ''wheat'', e_confidence = 4 / 5\<rparr>])
   \<and> [\<lparr>e_value = str ''wheat'', e_confidence = 4 / 5\<rparr>]
     \<noteq> [\<lparr>e_value = str ''rice'', e_confidence = 4 / 5\<rparr>,
         \<lparr>e_value = str ''wheat'', e_confidence = 4 / 5\<rparr>]"
  by (simp add: run_def ConversationManager_init_def get_or_create_context_def
        update_context_def new_context_def Let_def)

text \<open>
  C2 (amended): for a registered session, \<open>update_context\<close> merges key by key: every
  key of the turn's entities takes the turn's list (replacing what was accumulated for
  that key), and every other key keeps its accumulated list.
\<close>

theorem update_context_entities_overwrite:
  "active_sessions m sid = Some c \<Longrightarrow>
   \<exists>c'. active_sessions (update_context m now sid intent ents user_input response) sid
           = Some c' \<and>
        (\<forall>k vs. ents k = Some vs \<longrightarrow> entities c' k = Some vs) \<and>
        (\<forall>k. ents k = None \<longrightarrow> entities c' k = entities c k)"
  by (simp add: update_context_def Let_def map_add_def)

theorem update_context_entities_overwrite_witness:
  "active_sessions (snd (get_or_create_context ConversationManager_init ''u'' ''s'' ''en'')) ''s''
     = Some (new_context ''u'' ''s'' ''en'') \<and>
   (\<exists>c'. active_sessions
           (update_context (snd (get_or_create_context ConversationManager_init ''u'' ''s'' ''en''))
              1 ''s'' ''crop_advice''
              [''crops'' \<mapsto> [\<lparr>e_value = str ''rice'', e_confidence = 4 / 5\<rparr>]]
              (str ''rice'') (str ''ok'')) ''s'' = Some c' \<and>
         entities c' ''crops'' = Some [\<lparr>e_value = str ''rice'', e_confidence = 4 / 5\<rparr>] \<and>
         entities c' ''seasons'' = None)"
proof -
  let ?m = "snd (get_or_create_context ConversationManager_init ''u'' ''s'' ''en'')"
  let ?e = "[''crops'' \<mapsto> [\<lparr>e_value = str ''rice'', e_confidence = 4 / 5\<rparr>]]"
  have h: "active_sessions ?m ''s'' = Some (new_context ''u'' ''s'' ''en'')"
    by (simp add: get_or_create_context_def ConversationManager_init_def Let_def)
  from update_context_entities_overwrite [OF h, of 1 "''crop_advice''" ?e "str ''rice''" "str ''ok''"]
  obtain c' where c': "active_sessions (update_context ?m 1 ''s'' ''crop_advice'' ?e
        (str ''rice'') (str ''ok'')) ''s'' = Some c'"
    and k1: "\<forall>k vs. ?e k = Some vs \<longrightarrow> entities c' k = Some vs"
    and k2: "\<forall>k. ?e k = None \<longrightarrow> entities c' k = entities (new_context ''u'' ''s'' ''en'') k"
    by blast
  have "entities c' ''crops'' = Some [\<lparr>e_value = str ''rice'', e_confidence = 4 / 5\<rparr>]"
    using k1 by simp
  moreover have "entities c' ''seasons'' = None"
    using k2 by (simp add: new_context_def)
  ultimately show ?thesis using h c' by blast
qed

text \<open>
  C6: a session is created by \<open>get_or_create_context\<close>; after any further calls on the
  manager (lookups and updates, of this and of other sessions), its
  \<open>conversation_history\<close> holds the last 10 of the turns that the \<open>update_context\<close>
  calls for this session recorded, in call order, so its length is \<open>min N 10\<close> for
  \<open>N\<close> such calls.
\<close>

theorem conversation_history_last_10:
  assumes "active_sessions m s = None"
  shows "\<exists>c. active_sessions (run (snd (get_or_create_context m u s l)) calls) s = Some c \<and>
             conversation_history c = last_n 10 (turns_of s calls) \<and>
             length (conversation_history c) = min (length (turns_of s calls)) 10"
proof -
  let ?m1 = "snd (get_or_create_context m u s l)"
  have reg: "active_sessions ?m1 s = Some (new_context u s l)"
    using assms by (simp add: get_or_create_context_def Let_def)
  from history_run [OF reg, of calls]
  obtain c where c: "active_sessions (run ?m1 calls) s = Some c"
    and h: "last_n 10 (conversation_history c) = last_n 10 (turns_of s calls)"
    and len: "length (conversation_history c) \<le> 10"
    by (auto simp: new_context_def)
  have "conversation_history c = last_n 10 (turns_of s calls)"
    using h len by (simp add: last_n_id)
  then show ?thesis using c by (simp add: length_last_n)
qed

theorem conversation_history_last_10_witness:
  "active_sessions ConversationManager_init ''s'' = None \<and>
   (\<exists>c. active_sessions
           (run (snd (get_or_create_context ConversationManager_init ''u'' ''s'' ''en''))
              (map (\<lambda>n. (n, Update ''s'' ''weather'' Map.empty (str ''rain'') (str ''ok'')))
                 [1, 2, 3, 4, 5, 6, 7, 8, 9, 10, 11, 12])) ''s'' = Some c \<and>
        map t_timestamp (conversation_history c) = [3, 4, 5, 6, 7, 8, 9, 10, 11, 12] \<and>
        length (conversation_history c) = 10)"
proof -
  define calls where "calls = map (\<lambda>n. (n, Update ''s'' ''weather'' Map.empty (str ''rain'') (str ''ok'')))
                 [1, 2, 3, 4, 5, 6, 7, 8, 9, 10, 11, 12 :: nat]"
  have h: "active_sessions ConversationManager_init ''s'' = None"
    by (simp add: ConversationManager_init_def)
  have ts: "map t_timestamp (turns_of ''s'' calls) = [1, 2, 3, 4, 5, 6, 7, 8, 9, 10, 11, 12]"
    by (simp add: calls_def)
  from conversation_history_last_10 [OF h, of "''u''" "''en''" calls]
  obtain c where c: "active_sessions
           (run (snd (get_or_create_context ConversationManager_init ''u'' ''s'' ''en''))
              calls) ''s'' = Some c"
    and hist: "conversation_history c = last_n 10 (turns_of ''s'' calls)"
    by (elim exE conjE)
  have "map t_timestamp (conversation_history c) = last_n 10 (map t_timestamp (turns_of ''s'' calls))"
    by (simp add: hist last_n_def drop_map)
  then have m: "map t_timestamp (conversation_history c) = [3, 4, 5, 6, 7, 8, 9, 10, 11, 12]"
    by (simp add: ts last_n_def)
  have "length (map t_timestamp (conversation_history c)) = 10"
    by (simp only: m) simp
  then have l: "length (conversation_history c) = 10"
    by simp
  show ?thesis
    unfolding calls_def [symmetric]
    by (intro conjI exI [of _ c]) (rule h c m l)+
qed

lemma idle_run:
  "active_sessions m s = Some c \<Longrightarrow> \<not> list_ex (touches s) calls \<Longrightarrow>
   active_sessions (run m calls) s = Some c"
proof (induction calls arbitrary: m)
  case Nil
  then show ?case by (simp add: run_Nil)
next
  case (Cons tc cs)
  obtain now cl where tc: "tc = (now, cl)" by (cases tc)
  have "active_sessions (fst (exec m tc)) s = Some c"
  proof (cases cl)
    case (GetOrCreate u sid l)
    then have "sid \<noteq> s" using Cons.prems(2) tc by simp
    then show ?thesis
      using Cons.prems(1) tc GetOrCreate get_or_create_other [of sid s m u l]
      by (simp add: fst_exec_GetOrCreate del: exec.simps)
  next
    case (Update sid i e inp r)
    then have "sid \<noteq> s" using Cons.prems(2) tc by simp
    then show ?thesis
      using Cons.prems(1) tc Update by (simp add: update_context_other)
  qed
  moreover have "\<not> list_ex (touches s) cs" using Cons.prems(2) by simp
  ultimately show ?case using Cons.IH by (simp add: run_Cons)
qed

text \<open>
  The lookup reads neither the clock nor \<open>session_timeout\<close>: a registered session that
  no call has named in the meantime is returned as stored, with its language set to the
  one passed in, whatever the clock readings of the calls in between and of the lookup.
\<close>

lemma idle_session_returned_as_stored:
  assumes "active_sessions m s = Some c"
    and "\<not> list_ex (touches s) calls"
  shows "exec (run m calls) (now, GetOrCreate u s l)
           = (run m calls\<lparr>active_sessions := (active_sessions (run m calls))(s \<mapsto> c\<lparr>language := l\<rparr>)\<rparr>,
              Some (c\<lparr>language := l\<rparr>))"
  using idle_run [OF assms] by (simp add: get_or_create_same)

text \<open>
  C3 (the code departs from the claim): the manager declares a session timeout of 3600
  seconds. A session is created and updated at time 0 and then left alone; the lookup
  made 3601 seconds later, after the timeout has passed, still returns the stored
  context, with the turn recorded at time 0 in its history, where the fresh context that
  the claim requires has an empty history.
\<close>

theorem idle_session_served_after_timeout:
  "map_option (\<lambda>c. map t_timestamp (conversation_history c))
     (snd (exec (run ConversationManager_init
                   [(0, GetOrCreate ''u'' ''s'' ''en''),
                    (0, Update ''s'' ''weather'' Map.empty (str ''rain'') (str ''ok''))])
             (session_timeout ConversationManager_init + 1, GetOrCreate ''u'' ''s'' ''en'')))
   = Some [0]
   \<and> session_timeout ConversationManager_init + 1 = 3601
   \<and> conversation_history (new_context ''u'' ''s'' ''en'') = []"
  by (simp add: run_def ConversationManager_init_def get_or_create_context_def
        update_context_def new_context_def Let_def last_n_def)

section \<open>Properties of the language detector\<close>

lemma first_hit_split:
  "list_ex (contains text) kws \<Longrightarrow>
   \<forall>(l, ks) \<in> set pre. \<not> list_ex (contains text) ks \<Longrightarrow>
   first_hit (pre @ (L, kws) # post) text = Some L"
  by (induction pre) auto

lemma detect_language_text_only:
  "detect_language d text af = detect_from_text d text"
  by (cases af) (simp_all add: detect_language_def Let_def)

text \<open>
  C9 (as stated, refuted): the text \<open>crop\<close> followed by a space and the Hindi keyword
  of line 78 (code points 2347, 2360, 2354) contains the English keyword \<open>crop\<close>, and
  \<open>detect_language\<close> returns \<open>hi\<close>, not \<open>en\<close>.
\<close>

theorem detect_language_keyword_language_counterexample:
  "list_ex (contains (str ''crop '' @ [2347, 2360, 2354]))
     [str ''crop'', str ''farm'', str ''seed'', str ''water'', str ''fertilizer'',
      str ''pest'', str ''disease'', str ''soil'']
   \<and> map_of language_keywords ''en''
       = Some [str ''crop'', str ''farm'', str ''seed'', str ''water'', str ''fertilizer'',
               str ''pest'', str ''disease'', str ''soil'']
   \<and> detect_language (\<lambda>t. Inr ''en'') (str ''crop '' @ [2347, 2360, 2354])
         (None :: unit option) = ''hi''
   \<and> ''hi'' \<noteq> ''en''"
  by (simp add: detect_language_def detect_from_text_def language_keywords_def str_def)

text \<open>
  C9 (amended): the languages are tried in the fixed order of the keyword table (hi, en,
  kn). If the text contains a keyword of \<open>L\<close> and no keyword of a language that comes
  before \<open>L\<close> in the table, \<open>detect_language\<close> returns \<open>L\<close>, and returns it both with
  and without audio features.
\<close>

theorem detect_language_first_keyword_language:
  assumes "language_keywords = pre @ (L, kws) # post"
    and "list_ex (contains text) kws"
    and "\<forall>(l, ks) \<in> set pre. \<not> list_ex (contains text) ks"
  shows "detect_language d text (Some af) = L \<and> detect_language d text None = L"
  using first_hit_split [OF assms(2,3), of L post]
  by (simp add: detect_language_text_only detect_from_text_def assms(1))


theorem detect_language_first_keyword_language_witness:
  "language_keywords
     = [(''hi'', [[2347, 2360, 2354], [2326, 2375, 2340], [2348, 2368, 2332],
                 [2346, 2366, 2344, 2368], [2313, 2352, 2381, 2357, 2352, 2325],
                 [2325, 2368, 2335], [2352, 2379, 2327],
                 [2350, 2367, 2335, 2381, 2335, 2368]])]
       @ (''en'', [str ''crop'', str ''farm'', str ''seed'', str ''water'',
                   str ''fertilizer'', str ''pest'', str ''disease'', str ''soil''])
       # [(''kn'', [[3244, 3270, 3251, 3270], [3257, 3274, 3250], [3244, 3264, 3228],
                    [3240, 3264, 3248, 3265], [3223, 3274, 3244, 3277, 3244, 3248],
                    [3221, 3264, 3231], [3248, 3275, 3223],
                    [3246, 3235, 3277, 3235, 3265]])]
   \<and> list_ex (contains (str ''my soil''))
         [str ''crop'', str ''farm'', str ''seed'', str ''water'',
          str ''fertilizer'', str ''pest'', str ''disease'', str ''soil'']
   \<and> detect_language (\<lambda>t. Inl EngineError) (str ''my soil'') (Some [0 :: rat]) = ''en''
   \<and> detect_language (\<lambda>t. Inl EngineError) (str ''my soil'') (None :: unit option) = ''en''"
proof -
  let ?hi = "[(''hi'', [[2347, 2360, 2354], [2326, 2375, 2340], [2348, 2368, 2332],
                 [2346, 2366, 2344, 2368], [2313, 2352, 2381, 2357, 2352, 2325],
                 [2325, 2368, 2335], [2352, 2379, 2327],
                 [2350, 2367, 2335, 2381, 2335, 2368 :: nat]])]"
  let ?en = "[str ''crop'', str ''farm'', str ''seed'', str ''water'',
              str ''fertilizer'', str ''pest'', str ''disease'', str ''soil'']"
  let ?kn = "[(''kn'', [[3244, 3270, 3251, 3270], [3257, 3274, 3250], [3244, 3264, 3228],
                    [3240, 3264, 3248, 3265], [3223, 3274, 3244, 3277, 3244, 3248],
                    [3221, 3264, 3231], [3248, 3275, 3223],
                    [3246, 3235, 3277, 3235, 3265 :: nat]])]"
  have h1: "language_keywords = ?hi @ (''en'', ?en) # ?kn"
    by (simp add: language_keywords_def)
  have h2: "list_ex (contains (str ''my soil'')) ?en"
    by (simp add: str_def)
  have h3: "\<forall>(l, ks) \<in> set ?hi. \<not> list_ex (contains (str ''my soil'')) ks"
    by (simp add: str_def)
  from detect_language_first_keyword_language [OF h1 h2 h3, of "\<lambda>t. Inl EngineError" "[0 :: rat]"]
  have "detect_language (\<lambda>t. Inl EngineError) (str ''my soil'') (Some [0 :: rat]) = ''en''"
    and "detect_language (\<lambda>t. Inl EngineError) (str ''my soil'') (None :: unit option) = ''en''"
    by (rule conjunct1, rule conjunct2)
  with h1 h2 show ?thesis by (intro conjI)
qed

section \<open>Properties of the recogniser\<close>

text \<open>
  C8: when the primary engine (Whisper) yields confidence 0.5, a secondary engine is
  configured (the Azure key is set and not empty) and the secondary engine returns
  confidence 0.85, \<open>transcribe\<close> returns the secondary engine's text with confidence
  0.85.
\<close>

theorem transcribe_secondary_replaces:
  assumes "preprocess_audio asr audio_data = Inr audio_array"
    and "whisper_transcribe asr audio_array language_hint = Inr (text1, lang, 1 / 2)"
    and "truthy (azure_speech_key asr)"
    and "azure_transcribe asr audio_data lang = (text2, 17 / 20)"
  shows "transcribe asr audio_data language_hint = (text2, lang, 17 / 20)"
  using assms by (simp add: transcribe_def)

theorem transcribe_secondary_replaces_witness:
  "preprocess_audio
     \<lparr>azure_speech_key = Some ''key'', preprocess_audio = (\<lambda>b. Inr ()),
      whisper_generate = (\<lambda>a h. Inr (str ''crop'', [])),
      language_detector_init = None, detect = (\<lambda>t. Inr ''en''),
      azure_recognize = (\<lambda>b loc. Inr (Some (replicate 35 120)))\<rparr> [1, 2, 3] = Inr ()
   \<and> whisper_transcribe
     \<lparr>azure_speech_key = Some ''key'', preprocess_audio = (\<lambda>b. Inr ()),
      whisper_generate = (\<lambda>a h. Inr (str ''crop'', [])),
      language_detector_init = None, detect = (\<lambda>t. Inr ''en''),
      azure_recognize = (\<lambda>b loc. Inr (Some (replicate 35 120)))\<rparr> () ''auto''
       = Inr (str ''crop'', ''en'', 1 / 2)
   \<and> truthy (Some ''key'')
   \<and> azure_transcribe
     \<lparr>azure_speech_key = Some ''key'', preprocess_audio = (\<lambda>b. Inr ()),
      whisper_generate = (\<lambda>a h. Inr (str ''crop'', [])),
      language_detector_init = None, detect = (\<lambda>t. Inr ''en''),
      azure_recognize = (\<lambda>b loc. Inr (Some (replicate 35 120)))\<rparr> [1, 2, 3] ''en''
       = (replicate 35 120, 17 / 20)
   \<and> transcribe
     \<lparr>azure_speech_key = Some ''key'', preprocess_audio = (\<lambda>b. Inr ()),
      whisper_generate = (\<lambda>a h. Inr (str ''crop'', [])),
      language_detector_init = None, detect = (\<lambda>t. Inr ''en''),
      azure_recognize = (\<lambda>b loc. Inr (Some (replicate 35 120)))\<rparr> [1, 2, 3] ''auto''
       = (replicate 35 120, ''en'', 17 / 20)"
proof -
  define asr :: "unit multilingual_asr" where
    "asr = \<lparr>azure_speech_key = Some ''key'', preprocess_audio = (\<lambda>b. Inr ()),
      whisper_generate = (\<lambda>a h. Inr (str ''crop'', [])),
      language_detector_init = None, detect = (\<lambda>t. Inr ''en''),
      azure_recognize = (\<lambda>b loc. Inr (Some (replicate 35 120)))\<rparr>"
  have h1: "preprocess_audio asr [1, 2, 3] = Inr ()"
    by (simp add: asr_def)
  have h2: "whisper_transcribe asr () ''auto'' = Inr (str ''crop'', ''en'', 1 / 2)"
    by (simp add: asr_def whisper_transcribe_def calculate_whisper_confidence_def
          detect_language_def detect_from_text_def language_keywords_def str_def)
  have h3: "truthy (azure_speech_key asr)"
    by (simp add: asr_def truthy_def)
  have h4: "azure_transcribe asr [1, 2, 3] ''en'' = (replicate 35 120, 17 / 20)"
    by (simp add: asr_def azure_transcribe_def language_configs_def)
  have h5: "transcribe asr [1, 2, 3] ''auto'' = (replicate 35 120, ''en'', 17 / 20)"
    by (rule transcribe_secondary_replaces [OF h1 h2 h3 h4])
  have h3': "truthy (Some ''key'')"
    by (simp add: truthy_def)
  show ?thesis
    using h1 h2 h3' h4 h5 unfolding asr_def by (intro conjI)
qed

text \<open>
  C10: in every call of \<open>transcribe\<close> in which no engine raises, the language returned
  is the one \<open>detect_language\<close> computes from the primary (Whisper) transcription,
  whether or not the secondary engine's text and confidence replace the primary's; and
  the text and confidence returned are either the primary's or the secondary's.
\<close>

theorem transcribe_language_from_primary:
  assumes "preprocess_audio asr audio_data = Inr audio_array"
    and "whisper_generate asr audio_array language_hint = Inr (text1, scores)"
    and "language_detector_init asr = None"
  shows "fst (snd (transcribe asr audio_data language_hint))
           = detect_language (detect asr) text1 (None :: unit option)
         \<and> (fst (transcribe asr audio_data language_hint),
              snd (snd (transcribe asr audio_data language_hint)))
             \<in> {(text1, calculate_whisper_confidence scores),
                 azure_transcribe asr audio_data
                   (detect_language (detect asr) text1 (None :: unit option))}"
  using assms
  by (simp add: transcribe_def whisper_transcribe_def Let_def split_def)


theorem transcribe_language_from_primary_witness:
  "preprocess_audio
     \<lparr>azure_speech_key = Some ''key'', preprocess_audio = (\<lambda>b. Inr ()),
      whisper_generate = (\<lambda>a h. Inr (str ''crop'', [1 / 2])),
      language_detector_init = None, detect = (\<lambda>t. Inr ''en''),
      azure_recognize = (\<lambda>b loc. Inr (Some [2347, 2360, 2354]))\<rparr> [1, 2, 3] = Inr ()
   \<and> whisper_generate
     \<lparr>azure_speech_key = Some ''key'', preprocess_audio = (\<lambda>b. Inr ()),
      whisper_generate = (\<lambda>a h. Inr (str ''crop'', [1 / 2])),
      language_detector_init = None, detect = (\<lambda>t. Inr ''en''),
      azure_recognize = (\<lambda>b loc. Inr (Some [2347, 2360, 2354]))\<rparr> () ''auto''
       = Inr (str ''crop'', [1 / 2])
   \<and> transcribe
     \<lparr>azure_speech_key = Some ''key'', preprocess_audio = (\<lambda>b. Inr ()),
      whisper_generate = (\<lambda>a h. Inr (str ''crop'', [1 / 2])),
      language_detector_init = None, detect = (\<lambda>t. Inr ''en''),
      azure_recognize = (\<lambda>b loc. Inr (Some [2347, 2360, 2354]))\<rparr> [1, 2, 3] ''auto''
       = ([2347, 2360, 2354], ''en'', 53 / 100)
   \<and> detect_language (\<lambda>t. Inr ''en'') [2347, 2360, 2354] (None :: unit option) = ''hi''"
proof -
  define asr :: "unit multilingual_asr" where
    "asr = \<lparr>azure_speech_key = Some ''key'', preprocess_audio = (\<lambda>b. Inr ()),
      whisper_generate = (\<lambda>a h. Inr (str ''crop'', [1 / 2])),
      language_detector_init = None, detect = (\<lambda>t. Inr ''en''),
      azure_recognize = (\<lambda>b loc. Inr (Some [2347, 2360, 2354]))\<rparr>"
  have h1: "preprocess_audio asr [1, 2, 3] = Inr ()"
    by (simp add: asr_def)
  have h2: "whisper_generate asr () ''auto'' = Inr (str ''crop'', [1 / 2])"
    by (simp add: asr_def)
  have h3: "language_detector_init asr = None"
    by (simp add: asr_def)
  have en: "detect_language (detect asr) (str ''crop'') (None :: unit option) = ''en''"
    by (simp add: detect_language_def detect_from_text_def language_keywords_def str_def)
  have l: "fst (snd (transcribe asr [1, 2, 3] ''auto'')) = ''en''"
    using transcribe_language_from_primary [OF h1 h2 h3] en by simp
  have t: "transcribe asr [1, 2, 3] ''auto''
             = ([2347, 2360, 2354], fst (snd (transcribe asr [1, 2, 3] ''auto'')), 53 / 100)"
    by (simp add: transcribe_def whisper_transcribe_def asr_def azure_transcribe_def
          calculate_whisper_confidence_def truthy_def language_configs_def Let_def)
  have h5: "transcribe asr [1, 2, 3] ''auto'' = ([2347, 2360, 2354], ''en'', 53 / 100)"
    using t l by simp
  have h6: "detect_language (\<lambda>t. Inr ''en'') [2347, 2360, 2354] (None :: unit option) = ''hi''"
    by (simp add: detect_language_def detect_from_text_def language_keywords_def)
  show ?thesis
    using h1 h2 h5 h6 unfolding asr_def by (intro conjI)
qed

section \<open>Properties of the NLU on the pest-damage scenario\<close>

lemma preprocess_pest_text:
  "preprocess_text db (str ''I need help with pest damage on my tomato'') ''en''
     = str ''i need help with pest damage on my tomato''"
  by (simp add: preprocess_text_def strip_def is_space_def lower_def ascii_lower_def str_def)

lemma scores_pest_text:
  "intent_scores multilingual_keywords (str ''i need help with pest damage on my tomato'') ''en''
     = [(''pest_disease'', 1 / 2)]"
  by (simp add: multilingual_keywords_def keywords_for_def dict_get_def str_def)

lemma crops_pest_text:
  "findall_words db True (dict_get crop_patterns ''en'' (dict_get crop_patterns ''en'' []))
     (str ''i need help with pest damage on my tomato'') = [str ''tomato'']"
  by (simp add: findall_words_def crop_patterns_def dict_get_def str_def match_word_def
        boundary_def word_at_def is_word_def head_option_def last_option_def char_matches_def
        ascii_lower_def)


lemma seasons_pest_text:
  "findall_words db True (dict_get season_patterns ''en'' (dict_get season_patterns ''en'' []))
     (str ''i need help with pest damage on my tomato'') = []"
  by (simp add: findall_words_def season_patterns_def dict_get_def str_def match_word_def
        boundary_def word_at_def is_word_def head_option_def last_option_def char_matches_def
        ascii_lower_def)

lemma quantities_pest_text:
  "scan_quantities db quantity_units 0 (str ''i need help with pest damage on my tomato'') = []"
  by (simp add: str_def match_quantity_def is_digit_def)

lemma agricultural_pest_text:
  "extract_agricultural_entities db (str ''i need help with pest damage on my tomato'') ''en'' intent
     = [''crops'' \<mapsto> [\<lparr>e_value = str ''tomato'', e_confidence = 4 / 5\<rparr>]]"
  by (simp add: extract_agricultural_entities_def crops_pest_text seasons_pest_text
        quantities_pest_text pattern_entities_def Let_def)

lemma classify_pest_text:
  "classify_intent nlu (str ''i need help with pest damage on my tomato'') ''en'' context
     = (''pest_disease'', if current_intent context = ''pest_disease'' then 3 / 5 else 1 / 2)"
  by (simp add: classify_intent_def scores_pest_text boost_def)

text \<open>
  C1 (as stated, refuted): on the first turn of a session (empty history) the text is
  classified \<open>pest_disease\<close> and the crop \<open>tomato\<close> is extracted, but the response
  generated is the greeting template for \<open>en\<close>, which is neither the \<open>pest_disease\<close>
  template nor the response of \<open>_generate_pest_response\<close>.
\<close>

theorem pest_damage_first_turn_counterexample:
  "fst (understand
          \<lparr>intent_classifier = (\<lambda>t. Inr ()), entity_extractors = (\<lambda>l t. Inr [])\<rparr>
          \<lparr>u_isspace = (\<lambda>c. False), u_isword = (\<lambda>c. False), u_isdigit = (\<lambda>c. False),
           u_lower = (\<lambda>t. t), u_ci_eq = (\<lambda>p c. False)\<rparr>
          (str ''I need help with pest damage on my tomato'') ''en''
          (new_context ''u'' ''s'' ''en'')) = ''pest_disease''
   \<and> conversation_history (new_context ''u'' ''s'' ''en'') = []
   \<and> generate_response ''pest_disease''
         [''crops'' \<mapsto> [\<lparr>e_value = str ''tomato'', e_confidence = 4 / 5\<rparr>]]
         (new_context ''u'' ''s'' ''en'') ''en''
       = Inr (str ''Hello! I am Hasiru Mitra. How can I help you with your farming today?'')
   \<and> generate_pest_response
         [''crops'' \<mapsto> [\<lparr>e_value = str ''tomato'', e_confidence = 4 / 5\<rparr>]]
         (new_context ''u'' ''s'' ''en'') ''en''
       = Inr (str ''Send photos of leaves for pest/disease identification. Meanwhile, spray neem oil.'')
   \<and> template ''pest_disease'' ''en''
       = Inr (str ''What problem are you facing with your crop? Please describe in detail.'')
   \<and> str ''Hello! I am Hasiru Mitra. How can I help you with your farming today?''
       \<noteq> str ''Send photos of leaves for pest/disease identification. Meanwhile, spray neem oil.''
   \<and> str ''Hello! I am Hasiru Mitra. How can I help you with your farming today?''
       \<noteq> str ''What problem are you facing with your crop? Please describe in detail.''"
proof -
  have "fst (understand
          \<lparr>intent_classifier = (\<lambda>t. Inr ()), entity_extractors = (\<lambda>l t. Inr [])\<rparr>
          \<lparr>u_isspace = (\<lambda>c. False), u_isword = (\<lambda>c. False), u_isdigit = (\<lambda>c. False),
           u_lower = (\<lambda>t. t), u_ci_eq = (\<lambda>p c. False)\<rparr>
          (str ''I need help with pest damage on my tomato'') ''en''
          (new_context ''u'' ''s'' ''en'')) = ''pest_disease''"
    by (simp add: understand_def preprocess_pest_text classify_intent_def scores_pest_text
          boost_def new_context_def Let_def)
  moreover have "conversation_history (new_context ''u'' ''s'' ''en'') = []"
    by (simp add: new_context_def)
  moreover have "generate_response ''pest_disease''
         [''crops'' \<mapsto> [\<lparr>e_value = str ''tomato'', e_confidence = 4 / 5\<rparr>]]
         (new_context ''u'' ''s'' ''en'') ''en''
       = Inr (str ''Hello! I am Hasiru Mitra. How can I help you with your farming today?'')"
    by (simp add: generate_response_def new_context_def template_def subscript_def
          response_templates_def)
  moreover have "generate_pest_response
         [''crops'' \<mapsto> [\<lparr>e_value = str ''tomato'', e_confidence = 4 / 5\<rparr>]]
         (new_context ''u'' ''s'' ''en'') ''en''
       = Inr (str ''Send photos of leaves for pest/disease identification. Meanwhile, spray neem oil.'')"
    by (simp add: generate_pest_response_def get_or_en_def subscript_def dict_get_def
          pest_responses_def)
  moreover have "template ''pest_disease'' ''en''
       = Inr (str ''What problem are you facing with your crop? Please describe in detail.'')"
    by (simp add: template_def subscript_def response_templates_def)
  moreover have "str ''Hello! I am Hasiru Mitra. How can I help you with your farming today?''
       \<noteq> str ''Send photos of leaves for pest/disease identification. Meanwhile, spray neem oil.''"
    by (simp add: str_def)
  moreover have "str ''Hello! I am Hasiru Mitra. How can I help you with your farming today?''
       \<noteq> str ''What problem are you facing with your crop? Please describe in detail.''"
    by (simp add: str_def)
  ultimately show ?thesis by (intro conjI)
qed

text \<open>
  C1 (amended): for the input text "I need help with pest damage on my tomato" in
  language \<open>en\<close> and a context whose history is empty, the NLU classifies the intent as
  \<open>pest_disease\<close>; when the call of the NER model succeeds, the extracted entities have
  \<open>crops\<close> equal to the single value \<open>tomato\<close> with confidence 0.8; and the response
  text generated for that turn is the greeting template for \<open>en\<close>.
\<close>

theorem pest_damage_first_turn:
  assumes "entity_extractors nlu ''en'' (str ''i need help with pest damage on my tomato'')
             = Inr ners"
    and "conversation_history context = []"
  shows "\<exists>ents conf.
           understand nlu db (str ''I need help with pest damage on my tomato'') ''en'' context
             = (''pest_disease'', ents, conf)
           \<and> ents ''crops'' = Some [\<lparr>e_value = str ''tomato'', e_confidence = 4 / 5\<rparr>]
           \<and> generate_response ''pest_disease'' ents context ''en''
               = Inr (str ''Hello! I am Hasiru Mitra. How can I help you with your farming today?'')"
proof -
  define c :: rat where "c = (if current_intent context = ''pest_disease'' then 3 / 5 else 1 / 2)"
  have c: "classify_intent nlu (str ''i need help with pest damage on my tomato'')
                       ''en'' context = (''pest_disease'', c)"
    by (simp only: classify_pest_text c_def)
  define ents where "ents = extract_entities nlu db
      (str ''i need help with pest damage on my tomato'') ''en'' ''pest_disease''"
  have u: "understand nlu db (str ''I need help with pest damage on my tomato'') ''en'' context
             = (''pest_disease'', ents, c * (8 / 10) + 2 / 10)"
    by (simp add: understand_def preprocess_pest_text c ents_def Let_def)
  have e: "ents ''crops'' = Some [\<lparr>e_value = str ''tomato'', e_confidence = 4 / 5\<rparr>]"
    by (simp add: ents_def extract_entities_def ner_model_def assms(1) agricultural_pest_text)
  have g: "generate_response ''pest_disease'' ents context ''en''
               = Inr (str ''Hello! I am Hasiru Mitra. How can I help you with your farming today?'')"
    by (simp add: generate_response_def assms(2) template_def subscript_def
          response_templates_def)
  from u e g show ?thesis by (intro exI conjI)
qed


theorem pest_damage_first_turn_witness:
  "entity_extractors
     \<lparr>intent_classifier = (\<lambda>t. Inr ()),
      entity_extractors = (\<lambda>l t. Inr [\<lparr>ner_entity = ''B-MISC'', ner_word = str ''tomato'',
                                           ner_score = 99 / 100\<rparr>])\<rparr>
     ''en'' (str ''i need help with pest damage on my tomato'')
     = Inr [\<lparr>ner_entity = ''B-MISC'', ner_word = str ''tomato'', ner_score = 99 / 100\<rparr>]
   \<and> conversation_history (new_context ''u'' ''s'' ''en'') = []
   \<and> (\<exists>ents conf.
         understand
           \<lparr>intent_classifier = (\<lambda>t. Inr ()),
            entity_extractors = (\<lambda>l t. Inr [\<lparr>ner_entity = ''B-MISC'', ner_word = str ''tomato'',
                                                 ner_score = 99 / 100\<rparr>])\<rparr>
           \<lparr>u_isspace = (\<lambda>c. False), u_isword = (\<lambda>c. False), u_isdigit = (\<lambda>c. False),
            u_lower = (\<lambda>t. t), u_ci_eq = (\<lambda>p c. False)\<rparr>
           (str ''I need help with pest damage on my tomato'') ''en''
           (new_context ''u'' ''s'' ''en'')
           = (''pest_disease'', ents, conf)
         \<and> ents ''crops'' = Some [\<lparr>e_value = str ''tomato'', e_confidence = 4 / 5\<rparr>]
         \<and> generate_response ''pest_disease'' ents (new_context ''u'' ''s'' ''en'') ''en''
             = Inr (str ''Hello! I am Hasiru Mitra. How can I help you with your farming today?''))"
proof -
  define nlu where "nlu = \<lparr>intent_classifier = (\<lambda>t :: pystr. Inr () :: exn + unit),
      entity_extractors = (\<lambda>(l :: string) (t :: pystr).
         Inr [\<lparr>ner_entity = ''B-MISC'', ner_word = str ''tomato'', ner_score = 99 / 100\<rparr>]
           :: exn + ner_result list)\<rparr>"
  have h1: "entity_extractors nlu ''en'' (str ''i need help with pest damage on my tomato'')
     = Inr [\<lparr>ner_entity = ''B-MISC'', ner_word = str ''tomato'', ner_score = 99 / 100\<rparr>]"
    by (simp add: nlu_def)
  have h2: "conversation_history (new_context ''u'' ''s'' ''en'') = []"
    by (simp add: new_context_def)
  show ?thesis
    unfolding nlu_def [symmetric]
    by (intro conjI h1 h2 pest_damage_first_turn [OF h1 h2])
qed

section \<open>Properties of intent classification\<close>

lemma intent_scores_none:
  "list_all (\<lambda>(intent, lang_keywords).
              \<not> list_ex (contains text) (keywords_for lang_keywords lang)) table
   \<Longrightarrow> intent_scores table text lang = []"
proof (induction table)
  case Nil
  then show ?case by simp
next
  case (Cons row table)
  obtain intent lang_keywords where row: "row = (intent, lang_keywords)" by (cases row)
  from Cons.prems row
  have "filter (contains text) (keywords_for lang_keywords lang) = []"
    by (simp add: list_ex_iff filter_empty_conv)
  with Cons row show ?case by simp
qed

lemma classify_intent_fallback:
  assumes "no_intent_keyword lang text" and "intent_classifier nlu text = Inl e"
  shows "classify_intent nlu text lang context = (''general_query'', 1 / 2)"
  using assms intent_scores_none [of "text" lang multilingual_keywords]
  by (simp add: classify_intent_def no_intent_keyword_def boost_def)

text \<open>
  C4 (as stated, refuted): with the text \<open>hello there\<close> in \<open>en\<close>, which contains no
  keyword, and a fallback classifier that raises, \<open>understand\<close> returns
  \<open>general_query\<close> with overall confidence \<open>0.5 * 0.8 + 0.2\<close>, which is not 0.5. And
  the keywords are looked for in the preprocessed text: the input \<open>PEST\<close> contains no
  keyword, its lower-cased form does, and the intent returned is \<open>pest_disease\<close>.
\<close>

theorem understand_fallback_confidence_counterexample:
  "no_intent_keyword ''en'' (str ''hello there'')
   \<and> fst (understand
            \<lparr>intent_classifier = (\<lambda>t. Inl EngineError), entity_extractors = (\<lambda>l t. Inr [])\<rparr>
            \<lparr>u_isspace = (\<lambda>c. False), u_isword = (\<lambda>c. False), u_isdigit = (\<lambda>c. False),
             u_lower = (\<lambda>t. t), u_ci_eq = (\<lambda>p c. False)\<rparr>
            (str ''hello there'') ''en'' (new_context ''u'' ''s'' ''en'')) = ''general_query''
   \<and> snd (snd (understand
            \<lparr>intent_classifier = (\<lambda>t. Inl EngineError), entity_extractors = (\<lambda>l t. Inr [])\<rparr>
            \<lparr>u_isspace = (\<lambda>c. False), u_isword = (\<lambda>c. False), u_isdigit = (\<lambda>c. False),
             u_lower = (\<lambda>t. t), u_ci_eq = (\<lambda>p c. False)\<rparr>
            (str ''hello there'') ''en'' (new_context ''u'' ''s'' ''en''))) = 3 / 5
   \<and> (3 / 5 :: rat) \<noteq> 1 / 2
   \<and> no_intent_keyword ''en'' (str ''PEST'')
   \<and> fst (understand
            \<lparr>intent_classifier = (\<lambda>t. Inl EngineError), entity_extractors = (\<lambda>l t. Inr [])\<rparr>
            \<lparr>u_isspace = (\<lambda>c. False), u_isword = (\<lambda>c. False), u_isdigit = (\<lambda>c. False),
             u_lower = (\<lambda>t. t), u_ci_eq = (\<lambda>p c. False)\<rparr>
            (str ''PEST'') ''en'' (new_context ''u'' ''s'' ''en'')) = ''pest_disease''"
proof -
  define nlu where "nlu = \<lparr>intent_classifier = (\<lambda>t :: pystr. Inl EngineError :: exn + unit),
      entity_extractors = (\<lambda>(l :: string) (t :: pystr). Inr [] :: exn + ner_result list)\<rparr>"
  define db where "db = \<lparr>u_isspace = (\<lambda>c. False), u_isword = (\<lambda>c. False),
      u_isdigit = (\<lambda>c. False), u_lower = (\<lambda>t :: pystr. t), u_ci_eq = (\<lambda>p c. False)\<rparr>"
  have p1: "preprocess_text db (str ''hello there'') ''en'' = str ''hello there''"
    by (simp add: preprocess_text_def strip_def is_space_def lower_def ascii_lower_def str_def)
  have p2: "preprocess_text db (str ''PEST'') ''en'' = str ''pest''"
    by (simp add: preprocess_text_def strip_def is_space_def lower_def ascii_lower_def str_def)
  have k1: "no_intent_keyword ''en'' (str ''hello there'')"
    by (simp add: no_intent_keyword_def multilingual_keywords_def keywords_for_def
          dict_get_def str_def)
  have k2: "no_intent_keyword ''en'' (str ''PEST'')"
    by (simp add: no_intent_keyword_def multilingual_keywords_def keywords_for_def
          dict_get_def str_def)
  have c1: "classify_intent nlu (str ''hello there'') ''en'' (new_context ''u'' ''s'' ''en'')
              = (''general_query'', 1 / 2)"
    by (rule classify_intent_fallback [OF k1]) (simp add: nlu_def)
  have s2: "intent_scores multilingual_keywords (str ''pest'') ''en'' = [(''pest_disease'', 1 / 4)]"
    by (simp add: multilingual_keywords_def keywords_for_def dict_get_def str_def)
  have c2: "classify_intent nlu (str ''pest'') ''en'' (new_context ''u'' ''s'' ''en'')
              = (''pest_disease'', 1 / 4)"
    by (simp add: classify_intent_def s2 boost_def new_context_def)
  have u1: "fst (understand nlu db (str ''hello there'') ''en'' (new_context ''u'' ''s'' ''en''))
              = ''general_query''"
    by (simp add: understand_def p1 c1 Let_def)
  have u2: "snd (snd (understand nlu db (str ''hello there'') ''en'' (new_context ''u'' ''s'' ''en'')))
              = 3 / 5"
    by (simp add: understand_def p1 c1 Let_def)
  have u3: "fst (understand nlu db (str ''PEST'') ''en'' (new_context ''u'' ''s'' ''en''))
              = ''pest_disease''"
    by (simp add: understand_def p2 c2 Let_def)
  have n: "(3 / 5 :: rat) \<noteq> 1 / 2" by simp
  show ?thesis
    unfolding nlu_def [symmetric] db_def [symmetric]
    by (intro conjI k1 u1 u2 n k2 u3)
qed

text \<open>
  C4 (amended): for every input text whose preprocessed form (whitespace collapsed,
  fillers removed, lower-cased) contains no keyword of any intent's list for the language,
  if the fallback intent classifier raises, intent classification gives \<open>general_query\<close>
  with confidence 0.5, and \<open>understand\<close> returns intent \<open>general_query\<close> with overall
  confidence \<open>0.5 * 0.8 + 0.2\<close>, that is 0.6; being a total function it does not raise.
\<close>

theorem understand_fallback_general_query:
  assumes "no_intent_keyword lang (preprocess_text db text lang)"
    and "intent_classifier nlu (preprocess_text db text lang) = Inl e"
  shows "classify_intent nlu (preprocess_text db text lang) lang context
           = (''general_query'', 1 / 2)
         \<and> fst (understand nlu db text lang context) = ''general_query''
         \<and> snd (snd (understand nlu db text lang context)) = (1 / 2) * (8 / 10) + 2 / 10
         \<and> snd (snd (understand nlu db text lang context)) = 3 / 5"
  using classify_intent_fallback [OF assms]
  by (simp add: understand_def Let_def)

theorem understand_fallback_general_query_witness:
  "no_intent_keyword ''en''
     (preprocess_text
        \<lparr>u_isspace = (\<lambda>c. False), u_isword = (\<lambda>c. False), u_isdigit = (\<lambda>c. False),
         u_lower = (\<lambda>t. t), u_ci_eq = (\<lambda>p c. False)\<rparr> (str ''  Hello   there '') ''en'')
   \<and> intent_classifier
       \<lparr>intent_classifier = (\<lambda>t. Inl EngineError), entity_extractors = (\<lambda>l t. Inr [])\<rparr>
       (preprocess_text
          \<lparr>u_isspace = (\<lambda>c. False), u_isword = (\<lambda>c. False), u_isdigit = (\<lambda>c. False),
           u_lower = (\<lambda>t. t), u_ci_eq = (\<lambda>p c. False)\<rparr> (str ''  Hello   there '') ''en'')
       = Inl EngineError
   \<and> fst (understand
            \<lparr>intent_classifier = (\<lambda>t. Inl EngineError), entity_extractors = (\<lambda>l t. Inr [])\<rparr>
            \<lparr>u_isspace = (\<lambda>c. False), u_isword = (\<lambda>c. False), u_isdigit = (\<lambda>c. False),
             u_lower = (\<lambda>t. t), u_ci_eq = (\<lambda>p c. False)\<rparr>
            (str ''  Hello   there '') ''en'' (new_context ''u'' ''s'' ''en'')) = ''general_query''
   \<and> snd (snd (understand
            \<lparr>intent_classifier = (\<lambda>t. Inl EngineError), entity_extractors = (\<lambda>l t. Inr [])\<rparr>
            \<lparr>u_isspace = (\<lambda>c. False), u_isword = (\<lambda>c. False), u_isdigit = (\<lambda>c. False),
             u_lower = (\<lambda>t. t), u_ci_eq = (\<lambda>p c. False)\<rparr>
            (str ''  Hello   there '') ''en'' (new_context ''u'' ''s'' ''en''))) = 3 / 5"
proof -
  define nlu where "nlu = \<lparr>intent_classifier = (\<lambda>t :: pystr. Inl EngineError :: exn + unit),
      entity_extractors = (\<lambda>(l :: string) (t :: pystr). Inr [] :: exn + ner_result list)\<rparr>"
  define db where "db = \<lparr>u_isspace = (\<lambda>c. False), u_isword = (\<lambda>c. False),
      u_isdigit = (\<lambda>c. False), u_lower = (\<lambda>t :: pystr. t), u_ci_eq = (\<lambda>p c. False)\<rparr>"
  have p: "preprocess_text db (str ''  Hello   there '') ''en'' = str ''hello there''"
    by (simp add: preprocess_text_def strip_def is_space_def lower_def ascii_lower_def str_def)
  have h1: "no_intent_keyword ''en'' (preprocess_text db (str ''  Hello   there '') ''en'')"
    unfolding p
    by (simp add: no_intent_keyword_def multilingual_keywords_def keywords_for_def
          dict_get_def str_def)
  have h2: "intent_classifier nlu (preprocess_text db (str ''  Hello   there '') ''en'')
              = Inl EngineError"
    by (simp add: nlu_def)
  note t = understand_fallback_general_query [OF h1 h2, of "new_context ''u'' ''s'' ''en''"]
  have u1: "fst (understand nlu db (str ''  Hello   there '') ''en'' (new_context ''u'' ''s'' ''en''))
              = ''general_query''"
    using t by (elim conjE)
  have u2: "snd (snd (understand nlu db (str ''  Hello   there '') ''en''
              (new_context ''u'' ''s'' ''en''))) = 3 / 5"
    using t by (elim conjE)
  show ?thesis
    unfolding nlu_def [symmetric] db_def [symmetric]
    by (intro conjI h1 h2 u1 u2)
qed

section \<open>Properties of response generation\<close>

text \<open>
  For the three supported languages every branch returns a text, and the text is not
  empty, unless the entity map holds an empty list under \<open>crops\<close>.
\<close>

lemma template_supported:
  "lang \<in> {''hi'', ''en'', ''kn''} \<Longrightarrow> name \<in> {''greeting'', ''crop_advice''} \<Longrightarrow>
   \<exists>t. template name lang = Inr t \<and> t \<noteq> []"
  by (auto simp: template_def subscript_def response_templates_def str_def)

lemma fixed_responses_supported:
  "lang \<in> {''hi'', ''en'', ''kn''} \<Longrightarrow>
   responses \<in> {pest_responses, weather_responses, market_responses, general_responses} \<Longrightarrow>
   \<exists>t. get_or_en responses lang = Inr t \<and> t \<noteq> []"
  by (auto simp: get_or_en_def subscript_def dict_get_def pest_responses_def
        weather_responses_def market_responses_def general_responses_def str_def)

lemma crop_advice_supported:
  "lang \<in> {''hi'', ''en'', ''kn''} \<Longrightarrow> ents ''crops'' \<noteq> Some [] \<Longrightarrow>
   \<exists>t. generate_crop_advice_response ents context lang = Inr t \<and> t \<noteq> []"
proof (cases "ents ''crops''")
  case None
  assume "lang \<in> {''hi'', ''en'', ''kn''}"
  then show ?thesis
    using None template_supported [of lang "''crop_advice''"]
    by (simp add: generate_crop_advice_response_def)
next
  case (Some crops)
  assume l: "lang \<in> {''hi'', ''en'', ''kn''}" and "ents ''crops'' \<noteq> Some []"
  then obtain first rest where "crops = first # rest"
    using Some by (cases crops) auto
  then show ?thesis
    using Some l
    by (auto simp: generate_crop_advice_response_def subscript_def dict_get_def
          crop_responses_def str_def)
qed

lemma generate_response_supported:
  assumes "lang \<in> {''hi'', ''en'', ''kn''}" and "ents ''crops'' \<noteq> Some []"
  shows "\<exists>t. generate_response intent ents context lang = Inr t \<and> t \<noteq> []"
  using template_supported [OF assms(1), of "''greeting''"]
    crop_advice_supported [of lang ents "context", OF assms]
    fixed_responses_supported [OF assms(1), of pest_responses]
    fixed_responses_supported [OF assms(1), of weather_responses]
    fixed_responses_supported [OF assms(1), of market_responses]
    fixed_responses_supported [OF assms(1), of general_responses]
  by (simp add: generate_response_def generate_pest_response_def
        generate_weather_response_def generate_market_response_def
        generate_general_response_def)





text \<open>What the single caller of \<open>_generate_response\<close> passes to it.\<close>

lemma first_hit_in_table:
  "first_hit table text = Some l \<Longrightarrow> l \<in> fst ` set table"
  by (induction table) (auto split: if_splits)

lemma detect_language_supported:
  "detect_language d text af \<in> {''hi'', ''en'', ''kn''}"
proof -
  have "detect_from_text d text \<in> {''hi'', ''en'', ''kn''}"
  proof (cases "first_hit language_keywords text")
    case None
    then show ?thesis
      by (auto simp: detect_from_text_def lang_mapping_def split: sum.splits option.splits if_splits)
  next
    case (Some l)
    from first_hit_in_table [OF Some] have "l \<in> {''hi'', ''en'', ''kn''}"
      by (simp add: language_keywords_def)
    then show ?thesis using Some by (simp add: detect_from_text_def)
  qed
  then show ?thesis by (simp add: detect_language_text_only)
qed

lemma transcribe_language_supported:
  "fst (snd (transcribe asr audio_data language_hint)) \<in> {''hi'', ''en'', ''kn''}"
  using detect_language_supported [of "detect asr" _ "None :: unit option"]
  by (auto simp: transcribe_def whisper_transcribe_def Let_def split_def
        split: sum.splits option.splits prod.splits if_splits)

lemma ner_entities_nonempty:
  "\<forall>k. ents k \<noteq> Some [] \<Longrightarrow> ner_entities ents rs k \<noteq> Some []"
  by (induction rs arbitrary: ents) auto

lemma agricultural_crops_nonempty:
  "extract_agricultural_entities db text lang intent ''crops'' \<noteq> Some []"
  by (simp add: extract_agricultural_entities_def Let_def pattern_entities_def)

lemma extract_entities_crops_nonempty:
  "extract_entities nlu db text lang intent ''crops'' \<noteq> Some []"
  using ner_entities_nonempty [of Map.empty _ "''crops''"]
    agricultural_crops_nonempty [of db "text" lang intent]
  by (auto simp: extract_entities_def map_add_def split: sum.splits option.splits)

lemma understand_crops_nonempty:
  "fst (snd (understand nlu db text lang context)) ''crops'' \<noteq> Some []"
  using extract_entities_crops_nonempty
  by (simp add: understand_def Let_def split_def)




text \<open>
  The single caller of \<open>_generate_response\<close>, \<open>process_voice_input\<close>, passes the
  language that \<open>transcribe\<close> returned and the intent and entities that \<open>understand\<close>
  returned: on these the generator returns a non-empty text, whatever the engines do.
\<close>

lemma generate_response_on_pipeline_values:
  "\<exists>t. generate_response
          (fst (understand nlu db text (fst (snd (transcribe asr audio_data hint))) context))
          (fst (snd (understand nlu db text (fst (snd (transcribe asr audio_data hint))) context)))
          context (fst (snd (transcribe asr audio_data hint))) = Inr t \<and> t \<noteq> []"
  by (rule generate_response_supported
        [of "fst (snd (transcribe asr audio_data hint))"
            "fst (snd (understand nlu db text (fst (snd (transcribe asr audio_data hint))) context))",
         OF transcribe_language_supported understand_crops_nonempty])

end
